theory Spec2Isabelle
  imports Complex_Main
begin

section \<open>Python values, exceptions and the outside world\<close>

text \<open>
  The scripts of \<^verbatim>\<open>azure_pipelines\<close> are thin clients: they read environment variables
  and files, send HTTP requests, run \<^verbatim>\<open>git\<close> and write log lines. The embedding makes
  each of these effects explicit. Everything the code cannot decide itself (what the server
  answers, what a file holds, what a library function returns) is a field of the record
  \<open>outside\<close>, over which the theorems quantify. Everything the code does to the outside is
  an \<open>event\<close>, appended to a trace in the order in which the code does it.

  A value of type \<open>json\<close> is a Python object as \<^verbatim>\<open>json.loads\<close> builds it: \<open>JNull\<close> is
  \<^verbatim>\<open>None\<close>, \<open>JObj\<close> a \<^verbatim>\<open>dict\<close> (looked up with \<open>map_of\<close>), \<open>JArr\<close> a \<^verbatim>\<open>list\<close>. A
  \<open>string\<close> stands for a Python \<^verbatim>\<open>str\<close>, one \<open>char\<close> for each character.
\<close>

datatype json =
    JNull
  | JBool bool
  | JInt int
  | JFloat rat
  | JStr string
  | JArr "json list"
  | JObj "(string \<times> json) list"

text \<open>Python's truth value of an object, as \<^verbatim>\<open>if not x\<close> tests it.\<close>

fun truthy :: "json \<Rightarrow> bool" where
  "truthy JNull = False"
| "truthy (JBool b) = b"
| "truthy (JInt i) = (i \<noteq> 0)"
| "truthy (JFloat r) = (r \<noteq> 0)"
| "truthy (JStr s) = (s \<noteq> [])"
| "truthy (JArr xs) = (xs \<noteq> [])"
| "truthy (JObj kvs) = (kvs \<noteq> [])"

text \<open>
  Exceptions are values: a class and the message \<^verbatim>\<open>str(e)\<close>. The classes are the ones the
  code names in an \<^verbatim>\<open>except\<close> clause or raises through a built-in operation; every other
  class derived from \<^verbatim>\<open>Exception\<close> is \<open>OtherException\<close> with its name. \<open>catches\<close>
  is the test an \<^verbatim>\<open>except\<close> clause makes, subclasses included.
\<close>

datatype exn_class =
    KeyError
  | TypeError
  | AttributeError
  | ValueError
  | JSONDecodeError
  | UnicodeEncodeError
  | UnicodeDecodeError
  | RecursionError
  | OSError
  | FileNotFoundError
  | SubprocessError
  | CalledProcessError
  | OtherException string

datatype exn = Exn (exn_cls: exn_class) (str_exn: string)

fun exn_subclass :: "exn_class \<Rightarrow> exn_class \<Rightarrow> bool" where
  "exn_subclass JSONDecodeError ValueError = True"
| "exn_subclass UnicodeEncodeError ValueError = True"
| "exn_subclass UnicodeDecodeError ValueError = True"
| "exn_subclass FileNotFoundError OSError = True"
| "exn_subclass CalledProcessError SubprocessError = True"
| "exn_subclass c d = (c = d)"

definition catches :: "exn_class list \<Rightarrow> exn \<Rightarrow> bool" where
  "catches classes e = list_ex (exn_subclass (exn_cls e)) classes"

text \<open>\<^verbatim>\<open>obj[key]\<close> with a string key: only a dict can be subscripted by a string.\<close>

fun subscript :: "json \<Rightarrow> string \<Rightarrow> exn + json" where
  "subscript (JObj kvs) k =
     (case map_of kvs k of
        None \<Rightarrow> Inl (Exn KeyError ([CHR 0x27] @ k @ [CHR 0x27]))
      | Some v \<Rightarrow> Inr v)"
| "subscript _ k = Inl (Exn TypeError ''object is not subscriptable by str'')"

text \<open>\<^verbatim>\<open>obj.get(key, default)\<close>: only a dict has the method.\<close>

fun py_get :: "json \<Rightarrow> string \<Rightarrow> json \<Rightarrow> exn + json" where
  "py_get (JObj kvs) k d = (case map_of kvs k of None \<Rightarrow> Inr d | Some v \<Rightarrow> Inr v)"
| "py_get _ k d = Inl (Exn AttributeError ''object has no attribute get'')"

text \<open>Decimal digits of a number, as \<^verbatim>\<open>str(n)\<close> prints a status code.\<close>

fun str_nat :: "nat \<Rightarrow> string" where
  "str_nat n =
     (if n < 10 then [''0123456789'' ! n]
      else str_nat (n div 10) @ [''0123456789'' ! (n mod 10)])"

declare str_nat.simps [simp del]

subsection \<open>HTTP, processes, files, log\<close>

datatype http_method = GET | POST

text \<open>What \<^verbatim>\<open>requests\<close> is given as the body: \<^verbatim>\<open>json=\<close>, \<^verbatim>\<open>data=\<close> or nothing.\<close>

datatype payload = NoPayload | JsonPayload json | DataPayload string

record request =
  http_method :: http_method
  url :: string
  req_headers :: "(string \<times> string) list"
  payload :: payload

text \<open>
  A response: \<open>json_body\<close> is what \<^verbatim>\<open>response.json()\<close> decodes, \<open>None\<close> when the body
  is not valid JSON; \<open>content_text\<close> is \<^verbatim>\<open>response.text\<close>.
\<close>

record response =
  status_code :: nat
  reason :: string
  content_text :: string
  json_body :: "json option"

definition response_json :: "response \<Rightarrow> exn + json" where
  "response_json r =
     (case json_body r of
        None \<Rightarrow> Inl (Exn JSONDecodeError ''Expecting value: line 1 column 1 (char 0)'')
      | Some j \<Rightarrow> Inr j)"

text \<open>\<^verbatim>\<open>response.json()["id"]\<close>.\<close>

definition response_id :: "response \<Rightarrow> exn + json" where
  "response_id r = (case response_json r of Inl e \<Rightarrow> Inl e | Inr j \<Rightarrow> subscript j ''id'')"

datatype level = DEBUG | INFO | WARNING | ERROR

datatype event =
    Http request
  | Run "string list"
  | Log level string

text \<open>The requests and the commands of a trace, in order.\<close>

fun sent :: "event list \<Rightarrow> request list" where
  "sent [] = []"
| "sent (Http rq # es) = rq # sent es"
| "sent (e # es) = sent es"

fun commands :: "event list \<Rightarrow> string list list" where
  "commands [] = []"
| "commands (Run c # es) = c # commands es"
| "commands (e # es) = commands es"

fun logged :: "event list \<Rightarrow> (level \<times> string) list" where
  "logged [] = []"
| "logged (Log l m # es) = (l, m) # logged es"
| "logged (e # es) = logged es"

datatype file_state =
    Absent
  | Directory "string list"
  | Unreadable string string
  | Present string

record dataframe =
  columns :: "string list"
  rows :: "json list list"

text \<open>
  What \<^verbatim>\<open>json.loads\<close> makes of a text: a value, a syntax error with its message, or a
  nesting too deep for the parser.
\<close>

datatype parse_result = Parsed json | Malformed string | TooDeep

text \<open>
  The outside world. The server answers a request knowing the requests sent before it, so
  any server, with or without state, is an instance; a transport that gives no response at
  all is not modelled. \<open>run_process\<close> is \<^verbatim>\<open>subprocess.run(..., check=True)\<close>: \<open>None\<close> when
  the command exits with 0. A file holds bytes; \<open>decode_text\<close> is the codec with which a
  file opened in text mode is read, \<open>None\<close> for bytes that are not text in it. The last
  five fields are library functions the code calls: \<^verbatim>\<open>json.loads\<close>,
  \<^verbatim>\<open>pandas.read_csv\<close>, \<^verbatim>\<open>DataFrame.to_markdown\<close>, \<^verbatim>\<open>str\<close> of an object that is not a
  string, and \<^verbatim>\<open>base64.b64encode\<close>.
\<close>

record outside =
  server :: "request list \<Rightarrow> request \<Rightarrow> response"
  run_process :: "string list list \<Rightarrow> string list \<Rightarrow> exn option"
  environ :: "string \<Rightarrow> string option"
  files :: "string \<Rightarrow> file_state"
  decode_text :: "string \<Rightarrow> string option"
  json_loads :: "string \<Rightarrow> parse_result"
  read_csv :: "string \<Rightarrow> exn + dataframe"
  to_markdown :: "dataframe \<Rightarrow> exn + string"
  py_repr :: "json \<Rightarrow> string"
  b64encode :: "string \<Rightarrow> string"

definition requests_post ::
  "outside \<Rightarrow> string \<Rightarrow> (string \<times> string) list \<Rightarrow> payload \<Rightarrow> event list
    \<Rightarrow> response \<times> event list" where
  "requests_post X u hs p w =
     (let rq = \<lparr>http_method = POST, url = u, req_headers = hs, payload = p\<rparr>
      in (server X (sent w) rq, w @ [Http rq]))"

definition requests_get ::
  "outside \<Rightarrow> string \<Rightarrow> (string \<times> string) list \<Rightarrow> event list \<Rightarrow> response \<times> event list" where
  "requests_get X u hs w =
     (let rq = \<lparr>http_method = GET, url = u, req_headers = hs, payload = NoPayload\<rparr>
      in (server X (sent w) rq, w @ [Http rq]))"

text \<open>\<^verbatim>\<open>f"{x}"\<close>: a string prints as itself, \<^verbatim>\<open>None\<close> as \<^verbatim>\<open>None\<close>.\<close>

fun fstr :: "outside \<Rightarrow> json \<Rightarrow> string" where
  "fstr X (JStr s) = s"
| "fstr X JNull = ''None''"
| "fstr X v = py_repr X v"

definition fstr_opt :: "string option \<Rightarrow> string" where
  "fstr_opt v = (case v of None \<Rightarrow> ''None'' | Some s \<Rightarrow> s)"

definition path_is_file :: "outside \<Rightarrow> string \<Rightarrow> bool" where
  "path_is_file X p =
     (case files X p of Present c \<Rightarrow> True | Unreadable c m \<Rightarrow> True | _ \<Rightarrow> False)"

definition path_exists :: "outside \<Rightarrow> string \<Rightarrow> bool" where
  "path_exists X p = (files X p \<noteq> Absent)"

definition open_file :: "outside \<Rightarrow> string \<Rightarrow> exn + string" where
  "open_file X p =
     (case files X p of
        Absent \<Rightarrow>
          Inl (Exn FileNotFoundError (''[Errno 2] No such file or directory: '' @ p))
      | Directory ns \<Rightarrow> Inl (Exn OSError (''[Errno 21] Is a directory: '' @ p))
      | Unreadable c m \<Rightarrow> Inl (Exn (OtherException c) m)
      | Present s \<Rightarrow> Inr s)"

section \<open>pull_request_comment.py: the PR-comment client\<close>

definition API_VERSION :: string where
  "API_VERSION = ''7.1''"

record message =
  token :: "string option"
  collection_uri :: "string option"
  pull_request_id :: "string option"
  team_project :: "string option"
  repository_id :: "string option"
  commit_sha_prefix :: string
  base_url :: string

definition message_init :: "outside \<Rightarrow> message" where
  "message_init X =
     (let tok = environ X ''SYSTEM_ACCESSTOKEN'';
          cu = environ X ''SYSTEM_COLLECTIONURI'';
          pr = environ X ''SYSTEM_PULLREQUEST_PULLREQUESTID'';
          tp = environ X ''SYSTEM_TEAMPROJECT'';
          rid = environ X ''BUILD_REPOSITORY_ID'';
          source_version =
            (case environ X ''BUILD_SOURCEVERSION'' of None \<Rightarrow> '''' | Some v \<Rightarrow> v)
      in \<lparr>token = tok, collection_uri = cu, pull_request_id = pr, team_project = tp,
          repository_id = rid,
          commit_sha_prefix = (if source_version \<noteq> [] then take 5 source_version else ''''),
          base_url =
            fstr_opt cu @ fstr_opt tp @ ''/_apis/git/repositories/'' @ fstr_opt rid
              @ ''/pullRequests/'' @ fstr_opt pr\<rparr>)"

definition comment_data :: "string \<Rightarrow> json" where
  "comment_data comment =
     JObj [(''comments'',
              JArr [JObj [(''parentCommentId'', JInt 1), (''content'', JStr comment),
                          (''commentType'', JInt 1)]]),
           (''status'', JInt 1)]"

definition add_msg :: "outside \<Rightarrow> message \<Rightarrow> string \<Rightarrow> event list \<Rightarrow> bool \<times> event list" where
  "add_msg X self comment w =
     (let data = comment_data comment;
          msg_url = base_url self @ ''/threads?api-version='' @ API_VERSION;
          headers = [(''content-type'', ''application/json''),
                     (''Authorization'', ''Bearer '' @ fstr_opt (token self))];
          w1 = w @ [Log INFO (''Sending PR comment to: '' @ msg_url)];
          (response, w2) = requests_post X msg_url headers (JsonPayload data) w1;
          w3 = w2 @ [Log INFO (''Response Code: '' @ str_nat (status_code response)
                       @ '', Response Reason: '' @ reason response)]
      in (status_code response = 200, w3))"

definition attachment_name :: "message \<Rightarrow> string" where
  "attachment_name self = ''diagram-'' @ commit_sha_prefix self @ ''.png''"

definition upload_attachment_and_comment ::
  "outside \<Rightarrow> message \<Rightarrow> string \<Rightarrow> event list \<Rightarrow> (exn + bool) \<times> event list" where
  "upload_attachment_and_comment X self path w =
     (if \<not> path_is_file X path then
        (Inr False, w @ [Log ERROR (''File does not exist: '' @ path)])
      else
        let file_name = attachment_name self;
            attachment_url =
              base_url self @ ''/attachments/'' @ file_name @ ''?api-version='' @ API_VERSION;
            headers = [(''Content-Type'', ''application/octet-stream''),
                       (''Authorization'', ''Bearer '' @ fstr_opt (token self))];
            w1 = w @ [Log INFO (''Uploading attachment: '' @ file_name @ '' to ''
                        @ attachment_url)]
        in case open_file X path of
             Inl e \<Rightarrow> (Inl e, w1)
           | Inr file \<Rightarrow>
               let (response, w2) = requests_post X attachment_url headers (DataPayload file) w1;
                   w3 = w2 @ [Log INFO (''Response Code: '' @ str_nat (status_code response)
                                @ '', Response Reason: '' @ reason response)]
               in if status_code response = 201 then
                    let w4 = w3 @ [Log INFO ''File uploaded successfully'']
                    in case response_json response of
                         Inl e \<Rightarrow> (Inl e, w4)
                       | Inr j \<Rightarrow>
                           (case py_get j ''url'' JNull of
                              Inl e \<Rightarrow> (Inl e, w4)
                            | Inr attachment_ref \<Rightarrow>
                                let (r1, w5) =
                                      add_msg X self
                                        (''[Architecture Diagram]('' @ fstr X attachment_ref
                                           @ '')'') w4;
                                    (r2, w6) =
                                      add_msg X self
                                        (''<img src='' @ [CHR 0x22] @ fstr X attachment_ref
                                           @ [CHR 0x22] @ '' alt='' @ [CHR 0x22]
                                           @ ''Architecture Diagram'' @ [CHR 0x22] @ ''>'')
                                        w5
                                in (Inr True, w6))
                  else
                    (Inr False,
                     w3 @ [Log ERROR (''Failed to upload file. Response: ''
                             @ content_text response)]))"

section \<open>setup_repo.py: the repository provisioner\<close>

text \<open>
  The session object of \<^verbatim>\<open>CreateAzureRepo\<close>. The two identifiers start as \<^verbatim>\<open>None\<close>
  (\<open>JNull\<close>) and later hold whatever JSON value the server sent under \<^verbatim>\<open>"id"\<close>.
\<close>

record azure_repo =
  new_repo_name :: string
  azure_api_version :: string
  parent_project_id :: string
  source_project_name :: string
  organization :: string
  pipeline_stages :: "string list"
  new_repository_id :: json
  cicd_pull_request_id :: json
  headers :: "(string \<times> string) list"

definition create_azure_repo_init :: "outside \<Rightarrow> string \<Rightarrow> string \<Rightarrow> exn + azure_repo" where
  "create_azure_repo_init X pa_token repo_name =
     (if list_all (\<lambda>c. (of_char c :: nat) < 128) (CHR '':'' # pa_token) then
        Inr \<lparr>new_repo_name = repo_name,
             azure_api_version = ''7.0'',
             parent_project_id = ''<PROJECT_ID>'',
             source_project_name = ''<PROJECT_NAME>'',
             organization = ''<ORGANIZATION>'',
             pipeline_stages = [''development'', ''pull-request'', ''release''],
             new_repository_id = JNull,
             cicd_pull_request_id = JNull,
             headers = [(''Accept'', ''application/json''),
                        (''Authorization'', ''Basic '' @ b64encode X (CHR '':'' # pa_token))]\<rparr>
      else Inl (Exn UnicodeEncodeError ''ascii codec cannot encode character''))"

text \<open>\<^verbatim>\<open>needle in s\<close> for two strings: \<open>needle\<close> occurs in \<open>s\<close> as a substring.\<close>

fun starts_with :: "string \<Rightarrow> string \<Rightarrow> bool" where
  "starts_with s [] = True"
| "starts_with [] (p # ps) = False"
| "starts_with (c # cs) (p # ps) = (c = p \<and> starts_with cs ps)"

fun substring_of :: "string \<Rightarrow> string \<Rightarrow> bool" where
  "substring_of needle [] = (needle = [])"
| "substring_of needle (c # cs) = (starts_with (c # cs) needle \<or> substring_of needle cs)"

text \<open>\<^verbatim>\<open>needle in obj\<close> with a string on the left.\<close>

fun py_in :: "string \<Rightarrow> json \<Rightarrow> exn + bool" where
  "py_in needle (JStr s) = Inr (substring_of needle s)"
| "py_in needle (JArr xs) = Inr (List.member xs (JStr needle))"
| "py_in needle (JObj kvs) = Inr (List.member (map fst kvs) needle)"
| "py_in needle _ = Inl (Exn TypeError ''argument is not iterable'')"

text \<open>The items a \<^verbatim>\<open>for\<close> loop takes from an object.\<close>

fun py_iter :: "json \<Rightarrow> exn + json list" where
  "py_iter (JArr xs) = Inr xs"
| "py_iter (JObj kvs) = Inr (map (\<lambda>kv. JStr (fst kv)) kvs)"
| "py_iter (JStr s) = Inr (map (\<lambda>c. JStr [c]) s)"
| "py_iter _ = Inl (Exn TypeError ''object is not iterable'')"

text \<open>The loop of \<^verbatim>\<open>_handle_pull_request_pipeline\<close> over the pipelines found.\<close>

fun find_pipeline ::
  "json list \<Rightarrow> azure_repo \<Rightarrow> event list \<Rightarrow> (exn + unit) \<times> azure_repo \<times> event list" where
  "find_pipeline [] self w = (Inr (), self, w)"
| "find_pipeline (pipeline # rest) self w =
     (case py_get pipeline ''name'' (JStr []) of
        Inl e \<Rightarrow> (Inl e, self, w)
      | Inr name \<Rightarrow>
          (case py_in (new_repo_name self) name of
             Inl e \<Rightarrow> (Inl e, self, w)
           | Inr in1 \<Rightarrow>
               (case (if in1 then py_in ''pull-request'' name else Inr False) of
                  Inl e \<Rightarrow> (Inl e, self, w)
                | Inr both \<Rightarrow>
                    if both then
                      (case subscript pipeline ''id'' of
                         Inl e \<Rightarrow> (Inl e, self, w)
                       | Inr v \<Rightarrow>
                           (Inr (), self\<lparr>cicd_pull_request_id := v\<rparr>,
                            w @ [Log INFO (''Found ID for '' @ new_repo_name self
                                   @ ''-pull-request'')]))
                    else find_pipeline rest self w)))"

text \<open>The body of the inner \<^verbatim>\<open>try\<close> of \<^verbatim>\<open>_handle_pull_request_pipeline\<close>.\<close>

definition search_pipelines ::
  "response \<Rightarrow> azure_repo \<Rightarrow> event list \<Rightarrow> (exn + unit) \<times> azure_repo \<times> event list" where
  "search_pipelines search_response self w =
     (case response_json search_response of
        Inl e \<Rightarrow> (Inl e, self, w)
      | Inr j \<Rightarrow>
          (case py_get j ''value'' (JArr []) of
             Inl e \<Rightarrow> (Inl e, self, w)
           | Inr pipelines \<Rightarrow>
               (case py_iter pipelines of
                  Inl e \<Rightarrow> (Inl e, self, w)
                | Inr items \<Rightarrow> find_pipeline items self w)))"

definition handle_pull_request_pipeline ::
  "outside \<Rightarrow> response \<Rightarrow> azure_repo \<Rightarrow> event list
    \<Rightarrow> (exn + unit) \<times> azure_repo \<times> event list" where
  "handle_pull_request_pipeline X response self w =
     (case response_id response of
        Inr v \<Rightarrow> (Inr (), self\<lparr>cicd_pull_request_id := v\<rparr>, w)
      | Inl e \<Rightarrow>
          if \<not> catches [KeyError, ValueError] e then (Inl e, self, w)
          else
            let w1 = w @ [Log ERROR (''Pipeline '' @ new_repo_name self
                            @ ''-pull-request already exists. Searching for its ID...'')];
                get_url = ''https://dev.azure.com/'' @ organization self @ ''/''
                            @ source_project_name self @ ''/_apis/pipelines?api-version=''
                            @ azure_api_version self;
                (search_response, w2) = requests_get X get_url (headers self) w1
            in if status_code search_response \<noteq> 200 then
                 (Inr (), self,
                  w2 @ [Log ERROR (''Failed to retrieve pipelines: ''
                          @ str_nat (status_code search_response))])
               else
                 (case search_pipelines search_response self w2 of
                    (Inl e2, self2, w3) \<Rightarrow>
                      if catches [KeyError, ValueError] e2 then
                        (Inr (), self2,
                         w3 @ [Log ERROR (''Error parsing pipeline data: '' @ str_exn e2)])
                      else (Inl e2, self2, w3)
                  | (Inr u, self2, w3) \<Rightarrow> (Inr u, self2, w3)))"

definition pipeline_body :: "azure_repo \<Rightarrow> string \<Rightarrow> json" where
  "pipeline_body self stage =
     (let path = (if stage = ''development'' then ''/azure-pipelines.yml''
                  else ''/azure-pipelines-'' @ stage @ ''.yml'')
      in JObj [(''name'', JStr (new_repo_name self @ ''-'' @ stage)),
               (''configuration'',
                  JObj [(''path'', JStr path),
                        (''repository'',
                           JObj [(''id'', new_repository_id self),
                                 (''name'', JStr (new_repo_name self)),
                                 (''type'', JStr ''azureReposGit'')]),
                        (''type'', JStr ''yaml'')]),
               (''folder'', JStr (CHR 0x5C # new_repo_name self))])"

text \<open>The \<^verbatim>\<open>for stage in self.pipeline_stages\<close> loop of \<^verbatim>\<open>create_pipelines\<close>.\<close>

fun pipelines_loop ::
  "outside \<Rightarrow> string \<Rightarrow> string list \<Rightarrow> azure_repo \<Rightarrow> event list
    \<Rightarrow> (exn + unit) \<times> azure_repo \<times> event list" where
  "pipelines_loop X post_url [] self w = (Inr (), self, w)"
| "pipelines_loop X post_url (stage # stages) self w =
     (let (response, w1) =
            requests_post X post_url (headers self) (JsonPayload (pipeline_body self stage)) w
      in case (if stage = ''pull-request'' then handle_pull_request_pipeline X response self w1
               else (Inr (), self, w1)) of
           (Inl e, self1, w2) \<Rightarrow> (Inl e, self1, w2)
         | (Inr u, self1, w2) \<Rightarrow>
             let w3 = w2 @ [Log INFO (''Pipeline creation status: ''
                              @ str_nat (status_code response) @ '' - '' @ reason response)];
                 w4 = w3 @ [if status_code response = 200
                            then Log INFO ''Pipeline creation succeeded''
                            else Log ERROR
                                   ''Pipeline creation failed or pipeline already exists'']
             in pipelines_loop X post_url stages self1 w4)"

definition create_pipelines ::
  "outside \<Rightarrow> azure_repo \<Rightarrow> event list \<Rightarrow> (exn + unit) \<times> azure_repo \<times> event list" where
  "create_pipelines X self w =
     (if \<not> truthy (new_repository_id self) then
        (Inr (), self, w @ [Log ERROR ''Repository ID not set. Create repository first.''])
      else
        let w1 = w @ [Log INFO (''Creating new Azure pipelines on repository: ''
                        @ new_repo_name self)];
            post_url = ''https://dev.azure.com/'' @ organization self @ ''/''
                         @ parent_project_id self @ ''/_apis/pipelines?api-version=''
                         @ azure_api_version self
        in pipelines_loop X post_url (pipeline_stages self) self w1)"

definition get_existing_repo_id ::
  "outside \<Rightarrow> azure_repo \<Rightarrow> event list \<Rightarrow> (exn + bool) \<times> azure_repo \<times> event list" where
  "get_existing_repo_id X self w =
     (let get_url = ''https://dev.azure.com/'' @ organization self @ ''/''
                      @ parent_project_id self @ ''/_apis/git/repositories/''
                      @ new_repo_name self @ ''?api-version='' @ azure_api_version self;
          (response, w1) = requests_get X get_url (headers self) w
      in if status_code response = 200 then
           (case response_id response of
              Inr v \<Rightarrow> (Inr True, self\<lparr>new_repository_id := v\<rparr>, w1)
            | Inl e \<Rightarrow>
                if catches [KeyError, ValueError] e then
                  (Inr False, self,
                   w1 @ [Log ERROR (''Error parsing repository data: '' @ str_exn e)])
                else (Inl e, self, w1))
         else
           (Inr False, self,
            w1 @ [Log ERROR (''Failed to retrieve repository: ''
                    @ str_nat (status_code response) @ '' - '' @ reason response)]))"

definition create_azure_devops_repo ::
  "outside \<Rightarrow> azure_repo \<Rightarrow> event list \<Rightarrow> (exn + bool) \<times> azure_repo \<times> event list" where
  "create_azure_devops_repo X self w =
     (let w1 = w @ [Log INFO (''Creating new Azure repository: '' @ new_repo_name self)];
          body = JObj [(''name'', JStr (new_repo_name self)),
                       (''project'', JObj [(''id'', JStr (parent_project_id self))])];
          u = ''https://dev.azure.com/'' @ organization self
                @ ''/_apis/git/repositories?api-version='' @ azure_api_version self;
          (response, w2) = requests_post X u (headers self) (JsonPayload body) w1
      in if status_code response = 201 then
           let w3 = w2 @ [Log INFO ''Repository created successfully'']
           in (case response_id response of
                 Inl e \<Rightarrow> (Inl e, self, w3)
               | Inr v \<Rightarrow> (Inr True, self\<lparr>new_repository_id := v\<rparr>, w3))
         else if status_code response = 409 then
           get_existing_repo_id X self
             (w2 @ [Log INFO ''Repository already exists, retrieving ID''])
         else
           (Inr False, self,
            w2 @ [Log ERROR (''Failed to create repository: ''
                    @ str_nat (status_code response) @ '' - '' @ reason response)]))"

definition subprocess_run ::
  "outside \<Rightarrow> string list \<Rightarrow> event list \<Rightarrow> exn option \<times> event list" where
  "subprocess_run X cmd w = (run_process X (commands w) cmd, w @ [Run cmd])"

text \<open>The \<^verbatim>\<open>except subprocess.SubprocessError\<close> clause of \<^verbatim>\<open>git_migrate\<close>.\<close>

definition migrate_failed :: "exn \<Rightarrow> event list \<Rightarrow> (exn + bool) \<times> event list" where
  "migrate_failed e w =
     (if catches [SubprocessError] e
      then (Inr False, w @ [Log ERROR (''Git migration failed: '' @ str_exn e)])
      else (Inl e, w))"

definition git_migrate ::
  "outside \<Rightarrow> azure_repo \<Rightarrow> event list \<Rightarrow> (exn + bool) \<times> event list" where
  "git_migrate X self w =
     (let w1 = w @ [Log INFO ''Starting git migration''];
          (r1, w2) =
            subprocess_run X
              [''git'', ''remote'', ''set-url'', ''origin'',
               ''git@ssh.dev.azure.com:v3/'' @ organization self @ ''/''
                 @ source_project_name self @ ''/'' @ new_repo_name self] w1
      in case r1 of
           Some e \<Rightarrow> migrate_failed e w2
         | None \<Rightarrow>
             let (r2, w3) = subprocess_run X [''git'', ''push'', ''-u'', ''origin'', ''--all''] w2
             in (case r2 of
                   Some e \<Rightarrow> migrate_failed e w3
                 | None \<Rightarrow> (Inr True, w3 @ [Log INFO ''Git migration completed successfully''])))"

definition policy_body :: "azure_repo \<Rightarrow> json" where
  "policy_body self =
     JObj [(''isEnabled'', JBool True),
           (''isBlocking'', JBool True),
           (''isDeleted'', JBool False),
           (''isEnterpriseManaged'', JBool False),
           (''type'', JObj [(''id'', JStr ''0609b952-1397-4640-95ec-e00a01b2c241'')]),
           (''settings'',
              JObj [(''buildDefinitionId'', cicd_pull_request_id self),
                    (''manualQueueOnly'', JBool False),
                    (''queueOnSourceUpdateOnly'', JBool True),
                    (''scope'',
                       JArr [JObj [(''repositoryId'', new_repository_id self),
                                   (''refName'', JStr ''refs/heads/master''),
                                   (''matchKind'', JStr ''exact'')]]),
                    (''validDuration'', JFloat 720)])]"

definition create_pull_request_policy ::
  "outside \<Rightarrow> azure_repo \<Rightarrow> event list \<Rightarrow> bool \<times> event list" where
  "create_pull_request_policy X self w =
     (if \<not> truthy (cicd_pull_request_id self) \<or> \<not> truthy (new_repository_id self) then
        (False, w @ [Log ERROR ''Missing required IDs for policy creation''])
      else
        let w1 = w @ [Log INFO ''Setting build validation policy for pull requests''];
            post_url = ''https://dev.azure.com/'' @ organization self @ ''/''
                         @ source_project_name self
                         @ ''/_apis/policy/configurations?api-version=''
                         @ azure_api_version self;
            (response, w2) =
              requests_post X post_url (headers self) (JsonPayload (policy_body self)) w1
        in if status_code response = 200 then
             (True, w2 @ [Log INFO ''Build validation policy created successfully''])
           else
             (False,
              w2 @ [Log ERROR (''Failed to create build validation policy: ''
                      @ str_nat (status_code response) @ '' - '' @ reason response)]))"

text \<open>
  \<^verbatim>\<open>main\<close>, with the two command-line arguments as parameters. An exception of a stage
  is not caught, so it ends the run.
\<close>

definition main :: "outside \<Rightarrow> string \<Rightarrow> string \<Rightarrow> event list \<Rightarrow> (exn + unit) \<times> event list" where
  "main X azure_access_token repository_name w =
     (case create_azure_repo_init X azure_access_token repository_name of
        Inl e \<Rightarrow> (Inl e, w)
      | Inr repo \<Rightarrow>
          (case create_azure_devops_repo X repo w of
             (Inl e, repo1, w1) \<Rightarrow> (Inl e, w1)
           | (Inr created, repo1, w1) \<Rightarrow>
               if created then
                 (case create_pipelines X repo1 w1 of
                    (Inl e, repo2, w2) \<Rightarrow> (Inl e, w2)
                  | (Inr u, repo2, w2) \<Rightarrow>
                      (case git_migrate X repo2 w2 of
                         (Inl e, w3) \<Rightarrow> (Inl e, w3)
                       | (Inr migrated, w3) \<Rightarrow>
                           (Inr (), snd (create_pull_request_policy X repo2 w3))))
               else
                 (Inr (), w1 @ [Log ERROR ''Failed to create or find repository. Aborting.''])))"

section \<open>load_env/config.py: the configuration loader\<close>

record cdk_config =
  environment :: string
  data :: json

text \<open>
  \<^verbatim>\<open>json.load\<close> on the open file: it reads the file, which decodes its bytes and raises
  \<^verbatim>\<open>UnicodeDecodeError\<close> when they are not text, and parses the text, which raises
  \<^verbatim>\<open>JSONDecodeError\<close> when the text is not JSON and \<^verbatim>\<open>RecursionError\<close> when it is nested
  too deep.
\<close>

definition json_load :: "outside \<Rightarrow> string \<Rightarrow> exn + json" where
  "json_load X content =
     (case decode_text X content of
        None \<Rightarrow> Inl (Exn UnicodeDecodeError ''codec cannot decode byte: invalid start byte'')
      | Some txt \<Rightarrow>
          (case json_loads X txt of
             Parsed j \<Rightarrow> Inr j
           | Malformed m \<Rightarrow> Inl (Exn JSONDecodeError m)
           | TooDeep \<Rightarrow>
               Inl (Exn RecursionError
                      ''maximum recursion depth exceeded while decoding a JSON document'')))"

definition load_config ::
  "outside \<Rightarrow> cdk_config \<Rightarrow> event list \<Rightarrow> (exn + json) \<times> cdk_config \<times> event list" where
  "load_config X self w =
     (case (case open_file X (''config/'' @ environment self @ ''.json'') of
              Inl e \<Rightarrow> Inl e
            | Inr json_file \<Rightarrow> json_load X json_file) of
        Inr j \<Rightarrow> (Inr j, self\<lparr>data := j\<rparr>, w)
      | Inl e \<Rightarrow>
          if catches [FileNotFoundError, JSONDecodeError] e then
            (Inl e, self, w @ [Log ERROR (''Failed to load config file: '' @ str_exn e)])
          else (Inl e, self, w))"

definition cdk_config_init ::
  "outside \<Rightarrow> string \<Rightarrow> event list \<Rightarrow> (exn + cdk_config) \<times> event list" where
  "cdk_config_init X env_name w =
     (case load_config X \<lparr>environment = env_name, data = JObj []\<rparr> w of
        (Inl e, self, w1) \<Rightarrow> (Inl e, w1)
      | (Inr j, self, w1) \<Rightarrow> (Inr self, w1))"

section \<open>comment.py: validation reports\<close>

text \<open>
  Paths are strings as \<^verbatim>\<open>pathlib\<close> prints them. \<^verbatim>\<open>glob("*.csv")\<close> lists the entries of
  a directory whose name ends in \<^verbatim>\<open>.csv\<close>, in the order the directory gives them.
\<close>

definition path_name :: "string \<Rightarrow> string" where
  "path_name p = rev (takeWhile (\<lambda>c. c \<noteq> CHR ''/'') (rev p))"

definition glob_csv :: "outside \<Rightarrow> string \<Rightarrow> string list" where
  "glob_csv X dir =
     (case files X dir of
        Directory names \<Rightarrow>
          map (\<lambda>n. dir @ ''/'' @ n)
            (filter (\<lambda>n. 4 \<le> length n \<and> drop (length n - 4) n = ''.csv'') names)
      | _ \<Rightarrow> [])"

text \<open>\<^verbatim>\<open>DataFrame.empty\<close>: one of the two axes has length 0.\<close>

definition df_empty :: "dataframe \<Rightarrow> bool" where
  "df_empty df = (columns df = [] \<or> rows df = [])"

text \<open>The body of the \<^verbatim>\<open>try\<close> of \<^verbatim>\<open>add_validation_reports\<close>, for one file.\<close>

definition report_csv ::
  "outside \<Rightarrow> message \<Rightarrow> string \<Rightarrow> event list \<Rightarrow> (exn + unit) \<times> event list" where
  "report_csv X msg csv_file w =
     (case read_csv X csv_file of
        Inl e \<Rightarrow> (Inl e, w)
      | Inr df \<Rightarrow>
          if \<not> df_empty df then
            let w1 = w @ [Log INFO (''Adding CDK Validation report from ''
                            @ path_name csv_file)]
            in (case to_markdown X df of
                  Inl e \<Rightarrow> (Inl e, w1)
                | Inr md \<Rightarrow>
                    let (ok, w2) = add_msg X msg md w1
                    in if \<not> ok then
                         (Inr (),
                          w2 @ [Log ERROR (''Failed to add validation report from ''
                                  @ path_name csv_file)])
                       else (Inr (), w2))
          else (Inr (), w))"

text \<open>
  The loop over the files. \<^verbatim>\<open>except Exception\<close> catches every exception of the model,
  logs it and goes on with the next file.
\<close>

fun report_files :: "outside \<Rightarrow> message \<Rightarrow> string list \<Rightarrow> event list \<Rightarrow> event list" where
  "report_files X msg [] w = w"
| "report_files X msg (csv_file # rest) w =
     (case report_csv X msg csv_file w of
        (Inl e, w1) \<Rightarrow>
          report_files X msg rest
            (w1 @ [Log ERROR (''Error processing CSV file '' @ csv_file @ '': '' @ str_exn e)])
      | (Inr u, w1) \<Rightarrow> report_files X msg rest w1)"

definition add_validation_reports ::
  "outside \<Rightarrow> message \<Rightarrow> string \<Rightarrow> event list \<Rightarrow> event list" where
  "add_validation_reports X msg templates_dir w =
     (if \<not> path_exists X templates_dir then
        w @ [Log WARNING (''Templates directory not found: '' @ templates_dir)]
      else report_files X msg (glob_csv X templates_dir) w)"

section \<open>The calls of a run\<close>

text \<open>
  Names for the requests the code builds, so that a theorem can say which request a trace
  holds. Each is the URL, the headers and the body of the source function named in its
  comment; the lemmas of the next section prove that these are the requests sent.
\<close>

definition thread_request :: "message \<Rightarrow> string \<Rightarrow> request" where
  \<comment> \<open>\<^verbatim>\<open>Message.add_msg\<close>\<close>
  "thread_request self comment =
     \<lparr>http_method = POST,
      url = base_url self @ ''/threads?api-version=7.1'',
      req_headers = [(''content-type'', ''application/json''),
                     (''Authorization'', ''Bearer '' @ fstr_opt (token self))],
      payload = JsonPayload (comment_data comment)\<rparr>"

definition upload_request :: "message \<Rightarrow> string \<Rightarrow> request" where
  \<comment> \<open>\<^verbatim>\<open>Message.upload_attachment_and_comment\<close>, with the bytes of the file\<close>
  "upload_request self file =
     \<lparr>http_method = POST,
      url = base_url self @ ''/attachments/'' @ attachment_name self @ ''?api-version=7.1'',
      req_headers = [(''Content-Type'', ''application/octet-stream''),
                     (''Authorization'', ''Bearer '' @ fstr_opt (token self))],
      payload = DataPayload file\<rparr>"



definition repo_create_url :: "azure_repo \<Rightarrow> string" where
  "repo_create_url self =
     ''https://dev.azure.com/'' @ organization self
       @ ''/_apis/git/repositories?api-version='' @ azure_api_version self"

definition repo_lookup_url :: "azure_repo \<Rightarrow> string" where
  "repo_lookup_url self =
     ''https://dev.azure.com/'' @ organization self @ ''/'' @ parent_project_id self
       @ ''/_apis/git/repositories/'' @ new_repo_name self @ ''?api-version=''
       @ azure_api_version self"

definition pipelines_url :: "azure_repo \<Rightarrow> string" where
  "pipelines_url self =
     ''https://dev.azure.com/'' @ organization self @ ''/'' @ parent_project_id self
       @ ''/_apis/pipelines?api-version='' @ azure_api_version self"

definition pipelines_search_url :: "azure_repo \<Rightarrow> string" where
  "pipelines_search_url self =
     ''https://dev.azure.com/'' @ organization self @ ''/'' @ source_project_name self
       @ ''/_apis/pipelines?api-version='' @ azure_api_version self"

definition policy_url :: "azure_repo \<Rightarrow> string" where
  "policy_url self =
     ''https://dev.azure.com/'' @ organization self @ ''/'' @ source_project_name self
       @ ''/_apis/policy/configurations?api-version='' @ azure_api_version self"

definition repo_create_request :: "azure_repo \<Rightarrow> request" where
  \<comment> \<open>\<^verbatim>\<open>CreateAzureRepo.create_azure_devops_repo\<close>\<close>
  "repo_create_request self =
     \<lparr>http_method = POST, url = repo_create_url self, req_headers = headers self,
      payload = JsonPayload
        (JObj [(''name'', JStr (new_repo_name self)),
               (''project'', JObj [(''id'', JStr (parent_project_id self))])])\<rparr>"

definition repo_lookup_request :: "azure_repo \<Rightarrow> request" where
  \<comment> \<open>\<^verbatim>\<open>CreateAzureRepo._get_existing_repo_id\<close>\<close>
  "repo_lookup_request self =
     \<lparr>http_method = GET, url = repo_lookup_url self, req_headers = headers self,
      payload = NoPayload\<rparr>"

definition pipeline_request :: "azure_repo \<Rightarrow> string \<Rightarrow> request" where
  \<comment> \<open>\<^verbatim>\<open>CreateAzureRepo.create_pipelines\<close>, for one stage\<close>
  "pipeline_request self stage =
     \<lparr>http_method = POST, url = pipelines_url self, req_headers = headers self,
      payload = JsonPayload (pipeline_body self stage)\<rparr>"

definition pipelines_search_request :: "azure_repo \<Rightarrow> request" where
  \<comment> \<open>\<^verbatim>\<open>CreateAzureRepo._handle_pull_request_pipeline\<close>\<close>
  "pipelines_search_request self =
     \<lparr>http_method = GET, url = pipelines_search_url self, req_headers = headers self,
      payload = NoPayload\<rparr>"

definition policy_request :: "azure_repo \<Rightarrow> request" where
  \<comment> \<open>\<^verbatim>\<open>CreateAzureRepo.create_pull_request_policy\<close>\<close>
  "policy_request self =
     \<lparr>http_method = POST, url = policy_url self, req_headers = headers self,
      payload = JsonPayload (policy_body self)\<rparr>"

text \<open>
  The external calls of a trace: everything but the log lines. The four predicates sort
  them by the stage of the provisioning workflow whose endpoint or program they address.
\<close>

fun externals :: "event list \<Rightarrow> event list" where
  "externals [] = []"
| "externals (Log l m # es) = externals es"
| "externals (e # es) = e # externals es"

fun repo_call :: "azure_repo \<Rightarrow> event \<Rightarrow> bool" where
  "repo_call self (Http rq) = (url rq = repo_create_url self \<or> url rq = repo_lookup_url self)"
| "repo_call self e = False"

fun pipeline_call :: "azure_repo \<Rightarrow> event \<Rightarrow> bool" where
  "pipeline_call self (Http rq) =
     (url rq = pipelines_url self \<or> url rq = pipelines_search_url self)"
| "pipeline_call self e = False"

fun git_run :: "event \<Rightarrow> bool" where
  "git_run (Run c) = (take 1 c = [''git''])"
| "git_run e = False"

fun policy_call :: "azure_repo \<Rightarrow> event \<Rightarrow> bool" where
  "policy_call self (Http rq) = (url rq = policy_url self)"
| "policy_call self e = False"

text \<open>
  Two sessions with the same configuration: they differ at most in the two identifiers,
  the only attributes a method assigns.
\<close>

definition same_config :: "azure_repo \<Rightarrow> azure_repo \<Rightarrow> bool" where
  "same_config s t =
     (t\<lparr>new_repository_id := new_repository_id s,
        cicd_pull_request_id := cicd_pull_request_id s\<rparr> = s)"

section \<open>Concrete inputs\<close>

text \<open>
  Inputs at which the theorems are instantiated, after the fixtures of the repository's
  tests: a response with a status and a JSON body, the environment of \<^verbatim>\<open>conftest.py\<close>
  (with the repository id \<^verbatim>\<open>abc\<close> of the end-to-end scenario), and an outside world in
  which every request is answered with \<^verbatim>\<open>200 {}\<close>, every command succeeds, no file
  exists, the codec rejects the byte \<^verbatim>\<open>0xFF\<close> (which no UTF-8 text holds) and no text is
  JSON.
\<close>

definition reply :: "nat \<Rightarrow> json option \<Rightarrow> response" where
  "reply code j = \<lparr>status_code = code, reason = ''-'', content_text = '''', json_body = j\<rparr>"

definition azure_devops_env :: "(string \<times> string) list" where
  "azure_devops_env =
     [(''SYSTEM_COLLECTIONURI'', ''https://dev.azure.com/''),
      (''SYSTEM_PULLREQUEST_PULLREQUESTID'', ''22''),
      (''SYSTEM_TEAMPROJECT'', ''fabrikam''),
      (''BUILD_REPOSITORY_ID'', ''abc''),
      (''SYSTEM_ACCESSTOKEN'', ''SYSTEM_ACCESSTOKEN''),
      (''BUILD_SOURCEVERSION'', ''ahkjs213687213'')]"

definition test_outside :: outside where
  "test_outside =
     \<lparr>server = (\<lambda>history rq. reply 200 (Some (JObj []))),
      run_process = (\<lambda>history cmd. None),
      environ = map_of azure_devops_env,
      files = (\<lambda>p. Absent),
      decode_text = (\<lambda>s. if List.member s (CHR 0xFF) then None else Some s),
      json_loads = (\<lambda>s. Malformed ''Expecting value: line 1 column 1 (char 0)''),
      read_csv = (\<lambda>p. Inl (Exn (OtherException ''EmptyDataError'')
                               ''No columns to parse from file'')),
      to_markdown = (\<lambda>df. Inr ''| table |''),
      py_repr = (\<lambda>v. ''?''),
      b64encode = (\<lambda>s. s)\<rparr>"

text \<open>A server that answers by the URL of the request, \<^verbatim>\<open>404\<close> when the URL is not listed.\<close>

definition answers :: "(string \<times> response) list \<Rightarrow> request list \<Rightarrow> request \<Rightarrow> response" where
  "answers table history rq =
     (case map_of table (url rq) of None \<Rightarrow> reply 404 None | Some r \<Rightarrow> r)"

text \<open>
  A server that answers by turn: the first request gets the first response of the list,
  the second the second, and \<^verbatim>\<open>404\<close> once the list is used up. \<open>serving\<close> puts a server
  into the outside world of the tests.
\<close>

definition by_turn :: "response list \<Rightarrow> request list \<Rightarrow> request \<Rightarrow> response" where
  "by_turn rs history rq =
     (if length history < length rs then rs ! length history else reply 404 None)"

definition serving :: "(request list \<Rightarrow> request \<Rightarrow> response) \<Rightarrow> outside" where
  "serving f = test_outside\<lparr>server := f\<rparr>"

text \<open>
  The directory of \<^verbatim>\<open>test_pull_request_comment_utils.py\<close>: two reports with the table of
  \<^verbatim>\<open>sample_dataframe\<close>, one file that cannot be parsed, one file with an empty table, and
  one file that is not a report.
\<close>

definition sample_dataframe :: dataframe where
  "sample_dataframe =
     \<lparr>columns = [''col1'', ''col2''], rows = [[JInt 1, JInt 3], [JInt 2, JInt 4]]\<rparr>"

definition reports_outside :: outside where
  "reports_outside =
     test_outside
       \<lparr>files := (\<lambda>p. if p = ''synth/templates''
                       then Directory [''report1.csv'', ''error.csv'', ''empty.csv'',
                                       ''notes.txt'', ''report2.csv'']
                       else Absent),
        read_csv := (\<lambda>p. if p = ''synth/templates/error.csv''
                          then Inl (Exn (OtherException ''Exception'') ''CSV error'')
                          else if p = ''synth/templates/empty.csv''
                          then Inr \<lparr>columns = [], rows = []\<rparr>
                          else Inr sample_dataframe)\<rparr>"

text \<open>
  A directory with one report whose table is not empty, where rendering a table fails
  because the package \<^verbatim>\<open>tabulate\<close>, which \<^verbatim>\<open>to_markdown\<close> needs, is not installed.
\<close>

definition render_fails_outside :: outside where
  "render_fails_outside =
     test_outside
       \<lparr>files := (\<lambda>p. if p = ''synth/templates'' then Directory [''report1.csv'']
                       else Absent),
        read_csv := (\<lambda>p. Inr sample_dataframe),
        to_markdown :=
          (\<lambda>df. Inl (Exn (OtherException ''ImportError'')
                         ''Missing optional dependency tabulate''))\<rparr>"

text \<open>
  A run in which the repository and the three pipelines are created, both \<^verbatim>\<open>git\<close>
  commands fail with a non-zero exit status, and the policy endpoint answers 200; and the
  same run with both commands succeeding.
\<close>

definition git_fails_outside :: outside where
  "git_fails_outside =
     test_outside
       \<lparr>server :=
          answers
            [(''https://dev.azure.com/<ORGANIZATION>/_apis/git/repositories?api-version=7.0'',
              reply 201 (Some (JObj [(''id'', JStr ''123'')]))),
             (''https://dev.azure.com/<ORGANIZATION>/<PROJECT_ID>/_apis/pipelines?api-version=7.0'',
              reply 200 (Some (JObj [(''id'', JStr ''1'')]))),
             (''https://dev.azure.com/<ORGANIZATION>/<PROJECT_NAME>/_apis/policy/configurations?api-version=7.0'',
              reply 200 (Some (JObj [])))],
        run_process :=
          (\<lambda>history cmd. Some (Exn CalledProcessError ''returned non-zero exit status 128''))\<rparr>"

definition all_succeed_outside :: outside where
  "all_succeed_outside = git_fails_outside\<lparr>run_process := (\<lambda>history cmd. None)\<rparr>"

definition demo_repo :: azure_repo where
  "demo_repo =
     \<lparr>new_repo_name = ''demo'',
      azure_api_version = ''7.0'',
      parent_project_id = ''<PROJECT_ID>'',
      source_project_name = ''<PROJECT_NAME>'',
      organization = ''<ORGANIZATION>'',
      pipeline_stages = [''development'', ''pull-request'', ''release''],
      new_repository_id = JNull,
      cicd_pull_request_id = JNull,
      headers = [(''Accept'', ''application/json''), (''Authorization'', ''Basic :token'')]\<rparr>"

section \<open>Traces\<close>

lemma sent_append [simp]: "sent (xs @ ys) = sent xs @ sent ys"
  by (induction xs rule: sent.induct) simp_all

lemma commands_append [simp]: "commands (xs @ ys) = commands xs @ commands ys"
  by (induction xs rule: commands.induct) simp_all

lemma logged_append [simp]: "logged (xs @ ys) = logged xs @ logged ys"
  by (induction xs rule: logged.induct) simp_all

lemma externals_append [simp]: "externals (xs @ ys) = externals xs @ externals ys"
  by (induction xs rule: externals.induct) simp_all

lemma str_nat_200 [simp]: "str_nat 200 = ''200''"
  by (simp add: str_nat.simps)

lemma str_nat_201 [simp]: "str_nat 201 = ''201''"
  by (simp add: str_nat.simps)

lemma str_nat_404 [simp]: "str_nat 404 = ''404''"
  by (simp add: str_nat.simps)

lemma str_nat_409 [simp]: "str_nat 409 = ''409''"
  by (simp add: str_nat.simps)

lemma str_nat_500 [simp]: "str_nat 500 = ''500''"
  by (simp add: str_nat.simps)

lemma reply_simps [simp]:
  "status_code (reply c j) = c" "reason (reply c j) = ''-''"
  "content_text (reply c j) = ''''" "json_body (reply c j) = j"
  by (simp_all add: reply_def)

lemma test_outside_simps [simp]:
  "server test_outside = (\<lambda>history rq. reply 200 (Some (JObj [])))"
  "run_process test_outside = (\<lambda>history cmd. None)"
  "environ test_outside = map_of azure_devops_env"
  "files test_outside = (\<lambda>p. Absent)"
  "decode_text test_outside = (\<lambda>s. if List.member s (CHR 0xFF) then None else Some s)"
  "json_loads test_outside = (\<lambda>s. Malformed ''Expecting value: line 1 column 1 (char 0)'')"
  "to_markdown test_outside = (\<lambda>df. Inr ''| table |'')"
  "py_repr test_outside = (\<lambda>v. ''?'')"
  "b64encode test_outside = (\<lambda>s. s)"
  by (simp_all add: test_outside_def)

section \<open>The PR-comment client\<close>

text \<open>
  \<^verbatim>\<open>add_msg\<close> in one equation: one request, logged before and after, and the answer
  compared with 200.
\<close>

lemma add_msg_eq:
  "add_msg X self comment w =
     (status_code (server X (sent w) (thread_request self comment)) = 200,
      w @ [Log INFO (''Sending PR comment to: '' @ url (thread_request self comment)),
           Http (thread_request self comment),
           Log INFO (''Response Code: ''
             @ str_nat (status_code (server X (sent w) (thread_request self comment)))
             @ '', Response Reason: ''
             @ reason (server X (sent w) (thread_request self comment)))])"
  by (simp add: add_msg_def requests_post_def thread_request_def API_VERSION_def Let_def)

lemma sent_add_msg: "sent (snd (add_msg X self comment w)) = sent w @ [thread_request self comment]"
  by (simp add: add_msg_eq)

lemma message_init_env:
  assumes "environ X ''SYSTEM_COLLECTIONURI'' = Some cu"
    and "environ X ''SYSTEM_TEAMPROJECT'' = Some tp"
    and "environ X ''BUILD_REPOSITORY_ID'' = Some rid"
    and "environ X ''SYSTEM_PULLREQUEST_PULLREQUESTID'' = Some pr"
  shows "base_url (message_init X)
           = cu @ tp @ ''/_apis/git/repositories/'' @ rid @ ''/pullRequests/'' @ pr"
  using assms by (simp add: message_init_def fstr_opt_def Let_def)

text \<open>
  C1. With the four environment variables of the scenario set (and any others, any server,
  any trace so far), \<^verbatim>\<open>add_msg("hello")\<close> on a fresh \<^verbatim>\<open>Message\<close> sends exactly one
  request: a POST to the threads URL of pull request 22 of repository \<^verbatim>\<open>abc\<close> in project
  \<^verbatim>\<open>fabrikam\<close>, whose JSON body is the one-comment thread with content \<^verbatim>\<open>hello\<close>.
\<close>

theorem add_msg_scenario:
  assumes "environ X ''SYSTEM_COLLECTIONURI'' = Some ''https://dev.azure.com/''"
    and "environ X ''SYSTEM_TEAMPROJECT'' = Some ''fabrikam''"
    and "environ X ''BUILD_REPOSITORY_ID'' = Some ''abc''"
    and "environ X ''SYSTEM_PULLREQUEST_PULLREQUESTID'' = Some ''22''"
  shows "sent (snd (add_msg X (message_init X) ''hello'' w)) =
           sent w @
           [\<lparr>http_method = POST,
             url = ''https://dev.azure.com/fabrikam/_apis/git/repositories/abc/pullRequests/22/threads?api-version=7.1'',
             req_headers =
               [(''content-type'', ''application/json''),
                (''Authorization'', ''Bearer '' @ fstr_opt (environ X ''SYSTEM_ACCESSTOKEN''))],
             payload =
               JsonPayload
                 (JObj [(''comments'',
                           JArr [JObj [(''parentCommentId'', JInt 1),
                                       (''content'', JStr ''hello''),
                                       (''commentType'', JInt 1)]]),
                        (''status'', JInt 1)])\<rparr>]"
proof -
  have "base_url (message_init X)
          = ''https://dev.azure.com/fabrikam/_apis/git/repositories/abc/pullRequests/22''"
    using message_init_env [OF assms] by simp
  moreover have "token (message_init X) = environ X ''SYSTEM_ACCESSTOKEN''"
    by (simp add: message_init_def Let_def)
  ultimately show ?thesis
    by (simp add: sent_add_msg thread_request_def comment_data_def)
qed

theorem add_msg_scenario_witness:
  "sent (snd (add_msg test_outside (message_init test_outside) ''hello'' [])) =
     [\<lparr>http_method = POST,
       url = ''https://dev.azure.com/fabrikam/_apis/git/repositories/abc/pullRequests/22/threads?api-version=7.1'',
       req_headers =
         [(''content-type'', ''application/json''),
          (''Authorization'', ''Bearer SYSTEM_ACCESSTOKEN'')],
       payload =
         JsonPayload
           (JObj [(''comments'',
                     JArr [JObj [(''parentCommentId'', JInt 1),
                                 (''content'', JStr ''hello''),
                                 (''commentType'', JInt 1)]]),
                  (''status'', JInt 1)])\<rparr>]"
  using add_msg_scenario [of test_outside "[]"]
  by (simp add: azure_devops_env_def fstr_opt_def)

text \<open>
  C5. For every comment, every session, every trace so far and every server:
  \<^verbatim>\<open>add_msg\<close> sends exactly one request, the POST of the comment (no second attempt, no
  command run), and returns \<^verbatim>\<open>True\<close> exactly when the status of the response to that
  request is 200. The result depends on nothing else of the response.
\<close>

theorem add_msg_true_iff_200:
  assumes "add_msg X self comment w = (ok, w')"
    and "server X (sent w) (thread_request self comment) = r"
  shows "ok = (status_code r = 200)
         \<and> sent w' = sent w @ [thread_request self comment]
         \<and> commands w' = commands w
         \<and> payload (thread_request self comment) = JsonPayload (comment_data comment)"
  using assms by (auto simp: add_msg_eq thread_request_def)

theorem add_msg_true_iff_200_witness:
  "fst (add_msg (test_outside\<lparr>server := \<lambda>history rq. reply 201 None\<rparr>)
          (message_init test_outside) ''Test comment'' []) = False
   \<and> fst (add_msg test_outside (message_init test_outside) ''Test comment'' []) = True
   \<and> length (sent (snd (add_msg (test_outside\<lparr>server := \<lambda>history rq. reply 201 None\<rparr>)
          (message_init test_outside) ''Test comment'' []))) = 1"
  using
    add_msg_true_iff_200 [of "test_outside\<lparr>server := \<lambda>history rq. reply 201 None\<rparr>"
      "message_init test_outside" "''Test comment''" "[]"
      "fst (add_msg (test_outside\<lparr>server := \<lambda>history rq. reply 201 None\<rparr>)
          (message_init test_outside) ''Test comment'' [])"
      "snd (add_msg (test_outside\<lparr>server := \<lambda>history rq. reply 201 None\<rparr>)
          (message_init test_outside) ''Test comment'' [])"
      "reply 201 None"]
    add_msg_true_iff_200 [of test_outside "message_init test_outside" "''Test comment''" "[]"
      "fst (add_msg test_outside (message_init test_outside) ''Test comment'' [])"
      "snd (add_msg test_outside (message_init test_outside) ''Test comment'' [])"
      "reply 200 (Some (JObj []))"]
  by simp


lemma present_is_file: "files X path = Present content \<Longrightarrow> path_is_file X path"
  by (simp add: path_is_file_def)

lemma present_open: "files X path = Present content \<Longrightarrow> open_file X path = Inr content"
  by (simp add: open_file_def)







lemma upload_first:
  assumes "files X path = Present content"
  shows "\<exists>rest. sent (snd (upload_attachment_and_comment X self path w))
                  = sent w @ upload_request self content # rest"
  using assms present_is_file [OF assms] present_open [OF assms]
  by (auto simp: upload_attachment_and_comment_def requests_post_def upload_request_def
        API_VERSION_def Let_def add_msg_eq split: sum.splits)

text \<open>
  C9. For every environment: the attachment is named \<^verbatim>\<open>diagram-\<close>, then the first five
  characters of \<^verbatim>\<open>BUILD_SOURCEVERSION\<close> (the whole value when it is shorter), then
  \<^verbatim>\<open>.png\<close>; the name is \<^verbatim>\<open>diagram-.png\<close> when the variable is unset or empty; and this is
  the name in the URL of the upload request.
\<close>

theorem attachment_name_commit_prefix:
  "attachment_name (message_init X)
     = ''diagram-''
         @ take 5 (case environ X ''BUILD_SOURCEVERSION'' of None \<Rightarrow> '''' | Some v \<Rightarrow> v)
         @ ''.png''
   \<and> (environ X ''BUILD_SOURCEVERSION'' = None \<or> environ X ''BUILD_SOURCEVERSION'' = Some ''''
        \<longrightarrow> attachment_name (message_init X) = ''diagram-.png'')
   \<and> (files X path = Present content \<longrightarrow>
        url (hd (sent (snd (upload_attachment_and_comment X (message_init X) path []))))
          = base_url (message_init X) @ ''/attachments/diagram-''
              @ take 5 (case environ X ''BUILD_SOURCEVERSION'' of None \<Rightarrow> '''' | Some v \<Rightarrow> v)
              @ ''.png?api-version=7.1'')"
proof -
  have name: "attachment_name (message_init X)
     = ''diagram-''
         @ take 5 (case environ X ''BUILD_SOURCEVERSION'' of None \<Rightarrow> '''' | Some v \<Rightarrow> v)
         @ ''.png''"
    by (simp add: attachment_name_def message_init_def Let_def)
  have first: "hd (sent (snd (upload_attachment_and_comment X (message_init X) path [])))
                 = upload_request (message_init X) content"
    if "files X path = Present content"
    using upload_first [OF that, of "message_init X" "[]"] by auto
  show ?thesis
    using name first by (auto simp: upload_request_def)
qed

theorem attachment_name_commit_prefix_witness:
  "attachment_name (message_init test_outside) = ''diagram-ahkjs.png''
   \<and> attachment_name (message_init (test_outside\<lparr>environ := \<lambda>v. None\<rparr>)) = ''diagram-.png''
   \<and> attachment_name (message_init (test_outside\<lparr>environ := \<lambda>v. Some ''abc''\<rparr>))
       = ''diagram-abc.png''
   \<and> url (hd (sent (snd (upload_attachment_and_comment
            (test_outside\<lparr>files := \<lambda>p. Present ''image data''\<rparr>)
            (message_init (test_outside\<lparr>files := \<lambda>p. Present ''image data''\<rparr>))
            ''diagram.png'' []))))
       = ''https://dev.azure.com/fabrikam/_apis/git/repositories/abc/pullRequests/22/attachments/diagram-ahkjs.png?api-version=7.1''"
  using attachment_name_commit_prefix [of test_outside "''diagram.png''" "''''"]
    attachment_name_commit_prefix [of "test_outside\<lparr>environ := \<lambda>v. None\<rparr>" "''diagram.png''" "''''"]
    attachment_name_commit_prefix [of "test_outside\<lparr>environ := \<lambda>v. Some ''abc''\<rparr>"
      "''diagram.png''" "''''"]
    attachment_name_commit_prefix [of "test_outside\<lparr>files := \<lambda>p. Present ''image data''\<rparr>"
      "''diagram.png''" "''image data''"]
    message_init_env [of "test_outside\<lparr>files := \<lambda>p. Present ''image data''\<rparr>"
      "''https://dev.azure.com/''" "''fabrikam''" "''abc''" "''22''"]
  by (simp add: azure_devops_env_def)

section \<open>The repository provisioner\<close>

lemma get_existing_repo_id_eq:
  "get_existing_repo_id X self w =
     (let r = server X (sent w) (repo_lookup_request self);
          w1 = w @ [Http (repo_lookup_request self)]
      in if status_code r = 200 then
           (case response_id r of
              Inr v \<Rightarrow> (Inr True, self\<lparr>new_repository_id := v\<rparr>, w1)
            | Inl e \<Rightarrow>
                if catches [KeyError, ValueError] e then
                  (Inr False, self,
                   w1 @ [Log ERROR (''Error parsing repository data: '' @ str_exn e)])
                else (Inl e, self, w1))
         else
           (Inr False, self,
            w1 @ [Log ERROR (''Failed to retrieve repository: ''
                    @ str_nat (status_code r) @ '' - '' @ reason r)]))"
  by (simp add: get_existing_repo_id_def requests_get_def repo_lookup_request_def
        repo_lookup_url_def Let_def split: sum.splits)

lemma create_azure_devops_repo_eq:
  "create_azure_devops_repo X self w =
     (let r = server X (sent w) (repo_create_request self);
          w2 = w @ [Log INFO (''Creating new Azure repository: '' @ new_repo_name self),
                    Http (repo_create_request self)]
      in if status_code r = 201 then
           (case response_id r of
              Inl e \<Rightarrow> (Inl e, self, w2 @ [Log INFO ''Repository created successfully''])
            | Inr v \<Rightarrow>
                (Inr True, self\<lparr>new_repository_id := v\<rparr>,
                 w2 @ [Log INFO ''Repository created successfully'']))
         else if status_code r = 409 then
           get_existing_repo_id X self
             (w2 @ [Log INFO ''Repository already exists, retrieving ID''])
         else
           (Inr False, self,
            w2 @ [Log ERROR (''Failed to create repository: ''
                    @ str_nat (status_code r) @ '' - '' @ reason r)]))"
  by (simp add: create_azure_devops_repo_def requests_post_def repo_create_request_def
        repo_create_url_def Let_def split: sum.splits)

lemma response_id_object:
  "json_body r = Some (JObj kvs) \<Longrightarrow>
     response_id r =
       (case map_of kvs ''id'' of
          None \<Rightarrow> Inl (Exn KeyError ([CHR 0x27] @ ''id'' @ [CHR 0x27]))
        | Some v \<Rightarrow> Inr v)"
  by (simp add: response_id_def response_json_def)

lemma response_id_not_json:
  "json_body r = None \<Longrightarrow>
     response_id r = Inl (Exn JSONDecodeError ''Expecting value: line 1 column 1 (char 0)'')"
  by (simp add: response_id_def response_json_def)

lemma catches_key_value [simp]:
  "catches [KeyError, ValueError] (Exn KeyError m)"
  "catches [KeyError, ValueError] (Exn JSONDecodeError m)"
  "\<not> catches [KeyError, ValueError] (Exn TypeError m)"
  "\<not> catches [KeyError, ValueError] (Exn AttributeError m)"
  by (simp_all add: catches_def)

text \<open>
  Repository creation by the status of the answer, where the body carries what the code
  reads from it. Let \<open>r\<close> be the response to the repository-creation POST and \<open>g\<close> the
  response to the lookup that may follow it.
  (1) Status 201 with a body that is a JSON object holding \<open>v\<close> under \<^verbatim>\<open>"id"\<close>: \<open>v\<close> is
  stored in \<^verbatim>\<open>new_repository_id\<close>, the result is \<^verbatim>\<open>True\<close>, the POST is the only request.
  (2) Status 409: exactly one more request follows, the GET of the repository by its name;
  when it is answered with 200 and a JSON object holding \<open>v\<close> under \<^verbatim>\<open>"id"\<close>, \<open>v\<close> is stored
  and the result is \<^verbatim>\<open>True\<close>.
  (3) Any other status: the result is \<^verbatim>\<open>False\<close>, the session is unchanged (so an unset
  \<^verbatim>\<open>new_repository_id\<close> stays \<^verbatim>\<open>None\<close>), the POST is the only request.
\<close>

theorem create_repo_by_status:
  assumes "create_azure_devops_repo X self w = (res, self', w')"
    and "server X (sent w) (repo_create_request self) = r"
    and "server X (sent w @ [repo_create_request self]) (repo_lookup_request self) = g"
  shows
    "(status_code r = 201 \<and> json_body r = Some (JObj kvs) \<and> map_of kvs ''id'' = Some v \<longrightarrow>
        res = Inr True \<and> self' = self\<lparr>new_repository_id := v\<rparr>
        \<and> sent w' = sent w @ [repo_create_request self])
     \<and> (status_code r = 409 \<longrightarrow>
        sent w' = sent w @ [repo_create_request self, repo_lookup_request self]
        \<and> http_method (repo_lookup_request self) = GET
        \<and> url (repo_lookup_request self)
            = ''https://dev.azure.com/'' @ organization self @ ''/'' @ parent_project_id self
                @ ''/_apis/git/repositories/'' @ new_repo_name self @ ''?api-version=''
                @ azure_api_version self
        \<and> (status_code g = 200 \<and> json_body g = Some (JObj kvs) \<and> map_of kvs ''id'' = Some v
              \<longrightarrow> res = Inr True \<and> self' = self\<lparr>new_repository_id := v\<rparr>))
     \<and> (status_code r \<noteq> 201 \<and> status_code r \<noteq> 409 \<longrightarrow>
        res = Inr False \<and> self' = self
        \<and> (new_repository_id self = JNull \<longrightarrow> new_repository_id self' = JNull)
        \<and> sent w' = sent w @ [repo_create_request self])"
proof (intro conjI impI)
  assume a: "status_code r = 201 \<and> json_body r = Some (JObj kvs) \<and> map_of kvs ''id'' = Some v"
  then have "response_id r = Inr v"
    by (simp add: response_id_object)
  with a assms show "res = Inr True" "self' = self\<lparr>new_repository_id := v\<rparr>"
    "sent w' = sent w @ [repo_create_request self]"
    by (auto simp: create_azure_devops_repo_eq Let_def)
next
  assume a: "status_code r = 409"
  with assms show "sent w' = sent w @ [repo_create_request self, repo_lookup_request self]"
    by (auto simp: create_azure_devops_repo_eq get_existing_repo_id_eq Let_def
          split: if_splits sum.splits)
  show "http_method (repo_lookup_request self) = GET"
    by (simp add: repo_lookup_request_def)
  show "url (repo_lookup_request self)
            = ''https://dev.azure.com/'' @ organization self @ ''/'' @ parent_project_id self
                @ ''/_apis/git/repositories/'' @ new_repo_name self @ ''?api-version=''
                @ azure_api_version self"
    by (simp add: repo_lookup_request_def repo_lookup_url_def)
  assume b: "status_code g = 200 \<and> json_body g = Some (JObj kvs) \<and> map_of kvs ''id'' = Some v"
  then have "response_id g = Inr v"
    by (simp add: response_id_object)
  with a b assms show "res = Inr True" "self' = self\<lparr>new_repository_id := v\<rparr>"
    by (auto simp: create_azure_devops_repo_eq get_existing_repo_id_eq Let_def)
next
  assume a: "status_code r \<noteq> 201 \<and> status_code r \<noteq> 409"
  with assms show "res = Inr False" "self' = self"
    "sent w' = sent w @ [repo_create_request self]"
    by (auto simp: create_azure_devops_repo_eq Let_def)
  then show "new_repository_id self' = JNull" if "new_repository_id self = JNull"
    using that by simp
qed

lemma demo_repo_simps [simp]:
  "new_repo_name demo_repo = ''demo''"
  "azure_api_version demo_repo = ''7.0''"
  "parent_project_id demo_repo = ''<PROJECT_ID>''"
  "source_project_name demo_repo = ''<PROJECT_NAME>''"
  "organization demo_repo = ''<ORGANIZATION>''"
  "pipeline_stages demo_repo = [''development'', ''pull-request'', ''release'']"
  "new_repository_id demo_repo = JNull"
  "cicd_pull_request_id demo_repo = JNull"
  "headers demo_repo = [(''Accept'', ''application/json''), (''Authorization'', ''Basic :token'')]"
  by (simp_all add: demo_repo_def)

lemma serving_simps [simp]:
  "server (serving f) = f"
  "run_process (serving f) = (\<lambda>history cmd. None)"
  "environ (serving f) = map_of azure_devops_env"
  "files (serving f) = (\<lambda>p. Absent)"
  "py_repr (serving f) = (\<lambda>v. ''?'')"
  "b64encode (serving f) = (\<lambda>s. s)"
  by (simp_all add: serving_def)

lemma by_turn_simps [simp]:
  "by_turn [] history rq = reply 404 None"
  "by_turn (r # rs) [] rq = r"
  "by_turn (r # rs) (h # history) rq = by_turn rs history rq"
  by (simp_all add: by_turn_def)

text \<open>
  The three cases at concrete inputs, after \<^verbatim>\<open>test_setup_repo.py\<close>: 201 with the id
  \<^verbatim>\<open>123\<close>; 409 followed by a lookup answered with 200 and the id \<^verbatim>\<open>123\<close>; 500.
\<close>

theorem create_repo_by_status_witness:
  "fst (create_azure_devops_repo
          (serving (by_turn [reply 201 (Some (JObj [(''id'', JStr ''123'')]))])) demo_repo [])
     = Inr True
   \<and> fst (snd (create_azure_devops_repo
          (serving (by_turn [reply 201 (Some (JObj [(''id'', JStr ''123'')]))])) demo_repo []))
     = demo_repo\<lparr>new_repository_id := JStr ''123''\<rparr>
   \<and> fst (create_azure_devops_repo
          (serving (by_turn [reply 409 None, reply 200 (Some (JObj [(''id'', JStr ''123'')]))]))
          demo_repo [])
     = Inr True
   \<and> fst (snd (create_azure_devops_repo
          (serving (by_turn [reply 409 None, reply 200 (Some (JObj [(''id'', JStr ''123'')]))]))
          demo_repo []))
     = demo_repo\<lparr>new_repository_id := JStr ''123''\<rparr>
   \<and> sent (snd (snd (create_azure_devops_repo
          (serving (by_turn [reply 409 None, reply 200 (Some (JObj [(''id'', JStr ''123'')]))]))
          demo_repo [])))
     = [repo_create_request demo_repo, repo_lookup_request demo_repo]
   \<and> fst (create_azure_devops_repo (serving (by_turn [reply 500 None])) demo_repo [])
     = Inr False
   \<and> new_repository_id
        (fst (snd (create_azure_devops_repo (serving (by_turn [reply 500 None])) demo_repo [])))
     = JNull"
  using
    create_repo_by_status
      [where X = "serving (by_turn [reply 201 (Some (JObj [(''id'', JStr ''123'')]))])"
         and self = demo_repo and w = "[]" and kvs = "[(''id'', JStr ''123'')]"
         and v = "JStr ''123''"
         and r = "reply 201 (Some (JObj [(''id'', JStr ''123'')]))"
         and g = "reply 404 None"
         and res = "fst (create_azure_devops_repo
           (serving (by_turn [reply 201 (Some (JObj [(''id'', JStr ''123'')]))])) demo_repo [])"
         and self' = "fst (snd (create_azure_devops_repo
           (serving (by_turn [reply 201 (Some (JObj [(''id'', JStr ''123'')]))])) demo_repo []))"
         and w' = "snd (snd (create_azure_devops_repo
           (serving (by_turn [reply 201 (Some (JObj [(''id'', JStr ''123'')]))])) demo_repo []))"]
    create_repo_by_status
      [where X = "serving (by_turn [reply 409 None,
                    reply 200 (Some (JObj [(''id'', JStr ''123'')]))])"
         and self = demo_repo and w = "[]" and kvs = "[(''id'', JStr ''123'')]"
         and v = "JStr ''123''"
         and r = "reply 409 None"
         and g = "reply 200 (Some (JObj [(''id'', JStr ''123'')]))"
         and res = "fst (create_azure_devops_repo
           (serving (by_turn [reply 409 None,
              reply 200 (Some (JObj [(''id'', JStr ''123'')]))])) demo_repo [])"
         and self' = "fst (snd (create_azure_devops_repo
           (serving (by_turn [reply 409 None,
              reply 200 (Some (JObj [(''id'', JStr ''123'')]))])) demo_repo []))"
         and w' = "snd (snd (create_azure_devops_repo
           (serving (by_turn [reply 409 None,
              reply 200 (Some (JObj [(''id'', JStr ''123'')]))])) demo_repo []))"]
    create_repo_by_status
      [where X = "serving (by_turn [reply 500 None])"
         and self = demo_repo and w = "[]" and kvs = "[]" and v = JNull
         and r = "reply 500 None" and g = "reply 404 None"
         and res = "fst (create_azure_devops_repo (serving (by_turn [reply 500 None]))
                      demo_repo [])"
         and self' = "fst (snd (create_azure_devops_repo (serving (by_turn [reply 500 None]))
                      demo_repo []))"
         and w' = "snd (snd (create_azure_devops_repo (serving (by_turn [reply 500 None]))
                      demo_repo []))"]
  by simp

text \<open>
  C3. The claim: a creation POST answered with 201 stores the id of the response body in
  \<^verbatim>\<open>new_repository_id\<close> and \<^verbatim>\<open>create_azure_devops_repo\<close> returns \<^verbatim>\<open>True\<close>. The code at a
  201 whose body carries no id, here the empty object: \<^verbatim>\<open>response.json()["id"]\<close> raises
  \<^verbatim>\<open>KeyError\<close>, and the 201 branch has no handler for it, where
  \<^verbatim>\<open>_get_existing_repo_id\<close> and \<^verbatim>\<open>_handle_pull_request_pipeline\<close> wrap the same expression
  in \<^verbatim>\<open>except (KeyError, ValueError)\<close>. The call returns neither \<^verbatim>\<open>True\<close> nor \<^verbatim>\<open>False\<close>,
  against its docstring, and stores nothing.
\<close>

theorem create_repo_201_without_id_raises:
  "status_code (server (serving (by_turn [reply 201 (Some (JObj []))])) []
      (repo_create_request demo_repo)) = 201
   \<and> create_azure_devops_repo (serving (by_turn [reply 201 (Some (JObj []))])) demo_repo []
       = (Inl (Exn KeyError ([CHR 0x27] @ ''id'' @ [CHR 0x27])), demo_repo,
          [Log INFO ''Creating new Azure repository: demo'',
           Http (repo_create_request demo_repo),
           Log INFO ''Repository created successfully''])"
  by (simp add: create_azure_devops_repo_eq response_id_def response_json_def)

text \<open>
  The lookup after a 409, where it fails in a way its handler takes. When the creation
  POST is answered with 409 and the lookup that follows is answered with a status other than 200, or with 200 and a body that is not
  valid JSON, or with 200 and a JSON object without \<^verbatim>\<open>"id"\<close>, the result is \<^verbatim>\<open>False\<close>
  and the session is unchanged, so \<^verbatim>\<open>new_repository_id\<close> stays \<^verbatim>\<open>None\<close> when it was.
\<close>

theorem failed_lookup_keeps_session:
  assumes "create_azure_devops_repo X self w = (res, self', w')"
    and "status_code (server X (sent w) (repo_create_request self)) = 409"
    and "server X (sent w @ [repo_create_request self]) (repo_lookup_request self) = g"
    and "status_code g \<noteq> 200 \<or> json_body g = None
         \<or> (\<exists>kvs. json_body g = Some (JObj kvs) \<and> map_of kvs ''id'' = None)"
  shows "res = Inr False \<and> self' = self
         \<and> (new_repository_id self = JNull \<longrightarrow> new_repository_id self' = JNull)
         \<and> sent w' = sent w @ [repo_create_request self, repo_lookup_request self]"
proof -
  have "status_code g \<noteq> 200 \<or> (\<exists>e. response_id g = Inl e \<and> catches [KeyError, ValueError] e)"
    using assms(4) by (auto simp: response_id_object response_id_not_json)
  then have "get_existing_repo_id X self
                (w @ [Log INFO (''Creating new Azure repository: '' @ new_repo_name self),
                      Http (repo_create_request self),
                      Log INFO ''Repository already exists, retrieving ID''])
              = (res, self', w') \<Longrightarrow>
             res = Inr False \<and> self' = self
             \<and> sent w' = sent w @ [repo_create_request self, repo_lookup_request self]"
    using assms(3)
    by (auto simp: get_existing_repo_id_eq Let_def split: if_splits)
  with assms(1,2) have "res = Inr False \<and> self' = self
      \<and> sent w' = sent w @ [repo_create_request self, repo_lookup_request self]"
    by (simp add: create_azure_devops_repo_eq Let_def)
  then show ?thesis by simp
qed

theorem failed_lookup_keeps_session_witness:
  "create_azure_devops_repo (serving (by_turn [reply 409 None, reply 404 None])) demo_repo []
     = (Inr False, demo_repo,
        snd (snd (create_azure_devops_repo
          (serving (by_turn [reply 409 None, reply 404 None])) demo_repo [])))
   \<and> create_azure_devops_repo
       (serving (by_turn [reply 409 None, reply 200 (Some (JObj [(''name'', JStr ''demo'')]))]))
       demo_repo []
     = (Inr False, demo_repo,
        snd (snd (create_azure_devops_repo
          (serving (by_turn [reply 409 None,
             reply 200 (Some (JObj [(''name'', JStr ''demo'')]))])) demo_repo [])))
   \<and> new_repository_id demo_repo = JNull"
  using
    failed_lookup_keeps_session
      [where X = "serving (by_turn [reply 409 None, reply 404 None])"
         and self = demo_repo and w = "[]" and g = "reply 404 None"
         and res = "fst (create_azure_devops_repo
           (serving (by_turn [reply 409 None, reply 404 None])) demo_repo [])"
         and self' = "fst (snd (create_azure_devops_repo
           (serving (by_turn [reply 409 None, reply 404 None])) demo_repo []))"
         and w' = "snd (snd (create_azure_devops_repo
           (serving (by_turn [reply 409 None, reply 404 None])) demo_repo []))"]
    failed_lookup_keeps_session
      [where X = "serving (by_turn [reply 409 None,
                    reply 200 (Some (JObj [(''name'', JStr ''demo'')]))])"
         and self = demo_repo and w = "[]"
         and g = "reply 200 (Some (JObj [(''name'', JStr ''demo'')]))"
         and res = "fst (create_azure_devops_repo
           (serving (by_turn [reply 409 None,
              reply 200 (Some (JObj [(''name'', JStr ''demo'')]))])) demo_repo [])"
         and self' = "fst (snd (create_azure_devops_repo
           (serving (by_turn [reply 409 None,
              reply 200 (Some (JObj [(''name'', JStr ''demo'')]))])) demo_repo []))"
         and w' = "snd (snd (create_azure_devops_repo
           (serving (by_turn [reply 409 None,
              reply 200 (Some (JObj [(''name'', JStr ''demo'')]))])) demo_repo []))"]
  by (simp add: prod_eq_iff)

text \<open>
  C10. The claim: when the creation POST is answered with 409 and the lookup fails, by its
  status or by a body with no \<^verbatim>\<open>"id"\<close> field, \<^verbatim>\<open>create_azure_devops_repo\<close> returns
  \<^verbatim>\<open>False\<close> and \<^verbatim>\<open>new_repository_id\<close> stays \<^verbatim>\<open>None\<close>. The code at a lookup answered with
  200 and a JSON array, a body with no \<^verbatim>\<open>"id"\<close> field: the subscript raises
  \<^verbatim>\<open>TypeError\<close>, and the handler of the lookup, which logs
  \<^verbatim>\<open>Error parsing repository data\<close> and returns \<^verbatim>\<open>False\<close>, takes \<^verbatim>\<open>KeyError\<close> and
  \<^verbatim>\<open>ValueError\<close> only. The exception leaves the call, which returns neither \<^verbatim>\<open>True\<close> nor
  \<^verbatim>\<open>False\<close>, against its docstring.
\<close>

theorem lookup_array_body_raises:
  "status_code (server (serving (by_turn [reply 409 None, reply 200 (Some (JArr []))])) []
      (repo_create_request demo_repo)) = 409
   \<and> server (serving (by_turn [reply 409 None, reply 200 (Some (JArr []))]))
        [repo_create_request demo_repo] (repo_lookup_request demo_repo)
       = reply 200 (Some (JArr []))
   \<and> fst (create_azure_devops_repo
          (serving (by_turn [reply 409 None, reply 200 (Some (JArr []))])) demo_repo [])
       = Inl (Exn TypeError ''object is not subscriptable by str'')"
  by (simp add: create_azure_devops_repo_eq get_existing_repo_id_eq response_id_def
        response_json_def)

text \<open>
  C4. When \<^verbatim>\<open>new_repository_id\<close> is \<^verbatim>\<open>None\<close>, \<^verbatim>\<open>create_pipelines\<close> returns with the session
  as it was, having done nothing but log one error: no request, no command. When
  \<^verbatim>\<open>cicd_pull_request_id\<close> or \<^verbatim>\<open>new_repository_id\<close> is \<^verbatim>\<open>None\<close>,
  \<^verbatim>\<open>create_pull_request_policy\<close> returns \<^verbatim>\<open>False\<close>, having done nothing but log one error.
\<close>

theorem missing_ids_short_circuit:
  "(new_repository_id self = JNull \<longrightarrow>
      create_pipelines X self w
        = (Inr (), self, w @ [Log ERROR ''Repository ID not set. Create repository first.''])
      \<and> sent (snd (snd (create_pipelines X self w))) = sent w
      \<and> commands (snd (snd (create_pipelines X self w))) = commands w)
   \<and> (cicd_pull_request_id self = JNull \<or> new_repository_id self = JNull \<longrightarrow>
      create_pull_request_policy X self w
        = (False, w @ [Log ERROR ''Missing required IDs for policy creation''])
      \<and> sent (snd (create_pull_request_policy X self w)) = sent w
      \<and> commands (snd (create_pull_request_policy X self w)) = commands w)"
  by (auto simp: create_pipelines_def create_pull_request_policy_def)

theorem missing_ids_short_circuit_witness:
  "create_pipelines test_outside demo_repo []
     = (Inr (), demo_repo, [Log ERROR ''Repository ID not set. Create repository first.''])
   \<and> create_pull_request_policy test_outside (demo_repo\<lparr>new_repository_id := JStr ''456''\<rparr>) []
     = (False, [Log ERROR ''Missing required IDs for policy creation''])"
  using missing_ids_short_circuit [of demo_repo test_outside "[]"]
    missing_ids_short_circuit [of "demo_repo\<lparr>new_repository_id := JStr ''456''\<rparr>"
      test_outside "[]"]
  by simp

section \<open>The configuration loader\<close>

lemma catches_config [simp]:
  "catches [FileNotFoundError, JSONDecodeError] (Exn FileNotFoundError m)"
  "catches [FileNotFoundError, JSONDecodeError] (Exn JSONDecodeError m)"
  "\<not> catches [FileNotFoundError, JSONDecodeError] (Exn OSError m)"
  "\<not> catches [FileNotFoundError, JSONDecodeError] (Exn UnicodeDecodeError m)"
  "\<not> catches [FileNotFoundError, JSONDecodeError] (Exn RecursionError m)"
  "\<not> catches [FileNotFoundError, JSONDecodeError] (Exn (OtherException c) m)"
  by (simp_all add: catches_def)

text \<open>
  \<^verbatim>\<open>load_config\<close> by the state of the file: the two exceptions of the \<^verbatim>\<open>except\<close> clause
  are logged and raised again, every other exception leaves with nothing logged, and a
  value is returned and stored only when the file decodes and parses.
\<close>

lemma load_config_cases:
  "load_config X self w =
     (case files X (''config/'' @ environment self @ ''.json'') of
        Absent \<Rightarrow>
          (Inl (Exn FileNotFoundError
                  (''[Errno 2] No such file or directory: '' @ ''config/'' @ environment self
                     @ ''.json'')),
           self,
           w @ [Log ERROR (''Failed to load config file: ''
                  @ ''[Errno 2] No such file or directory: '' @ ''config/'' @ environment self
                  @ ''.json'')])
      | Directory ns \<Rightarrow>
          (Inl (Exn OSError (''[Errno 21] Is a directory: '' @ ''config/'' @ environment self
                  @ ''.json'')), self, w)
      | Unreadable c m \<Rightarrow> (Inl (Exn (OtherException c) m), self, w)
      | Present content \<Rightarrow>
          (case decode_text X content of
             None \<Rightarrow>
               (Inl (Exn UnicodeDecodeError ''codec cannot decode byte: invalid start byte''),
                self, w)
           | Some txt \<Rightarrow>
               (case json_loads X txt of
                  Parsed j \<Rightarrow> (Inr j, self\<lparr>data := j\<rparr>, w)
                | Malformed m \<Rightarrow>
                    (Inl (Exn JSONDecodeError m), self,
                     w @ [Log ERROR (''Failed to load config file: '' @ m)])
                | TooDeep \<Rightarrow>
                    (Inl (Exn RecursionError
                            ''maximum recursion depth exceeded while decoding a JSON document''),
                     self, w))))"
  by (simp add: load_config_def open_file_def json_load_def
        split: file_state.splits option.splits parse_result.splits)

text \<open>
  C7. The claim: \<^verbatim>\<open>load_config\<close> raises the Malformed-Data error exactly when the content
  of \<^verbatim>\<open>config/E.json\<close> is not valid JSON, and logs it before raising it again. The code at
  a file that is not valid JSON because its bytes are not text in the codec of \<^verbatim>\<open>open\<close>
  (here a file saved as UTF-16, which starts with the bytes \<^verbatim>\<open>FF FE\<close>): reading the file
  inside \<^verbatim>\<open>json.load\<close> raises \<^verbatim>\<open>UnicodeDecodeError\<close>, which
  \<^verbatim>\<open>except (FileNotFoundError, json.JSONDecodeError)\<close> does not take, so the exception that
  leaves is not \<^verbatim>\<open>JSONDecodeError\<close> and nothing is logged.
\<close>

theorem load_config_undecodable_raises:
  "files (test_outside\<lparr>files := \<lambda>p. Present [CHR 0xFF, CHR 0xFE, CHR 0x7B, CHR 0x00,
                                               CHR 0x7D, CHR 0x00]\<rparr>)
       ''config/developer.json''
     = Present [CHR 0xFF, CHR 0xFE, CHR 0x7B, CHR 0x00, CHR 0x7D, CHR 0x00]
   \<and> decode_text test_outside [CHR 0xFF, CHR 0xFE, CHR 0x7B, CHR 0x00, CHR 0x7D, CHR 0x00]
     = None
   \<and> load_config
       (test_outside\<lparr>files := \<lambda>p. Present [CHR 0xFF, CHR 0xFE, CHR 0x7B, CHR 0x00,
                                               CHR 0x7D, CHR 0x00]\<rparr>)
       \<lparr>environment = ''developer'', data = JObj []\<rparr> []
     = (Inl (Exn UnicodeDecodeError ''codec cannot decode byte: invalid start byte''),
        \<lparr>environment = ''developer'', data = JObj []\<rparr>, [])
   \<and> logged (snd (snd (load_config
       (test_outside\<lparr>files := \<lambda>p. Present [CHR 0xFF, CHR 0xFE, CHR 0x7B, CHR 0x00,
                                               CHR 0x7D, CHR 0x00]\<rparr>)
       \<lparr>environment = ''developer'', data = JObj []\<rparr> []))) = []"
  by (simp add: load_config_cases)

section \<open>Validation reports\<close>

text \<open>What one file sends does not depend on the trace before it.\<close>

lemma sent_report_csv:
  "sent (snd (report_csv X msg csv_file w)) = sent w @ sent (snd (report_csv X msg csv_file []))"
  by (simp add: report_csv_def add_msg_eq Let_def split: sum.splits)

lemma commands_report_csv: "commands (snd (report_csv X msg csv_file w)) = commands w"
  by (simp add: report_csv_def add_msg_eq Let_def split: sum.splits)

lemma sent_report_files:
  "sent (report_files X msg fs w)
     = sent w @ concat (map (\<lambda>f. sent (snd (report_csv X msg f []))) fs)"
proof (induction fs arbitrary: w)
  case Nil
  show ?case by simp
next
  case (Cons f fs)
  obtain r w1 where step: "report_csv X msg f w = (r, w1)"
    by (cases "report_csv X msg f w")
  then have w1: "sent w1 = sent w @ sent (snd (report_csv X msg f []))"
    using sent_report_csv [of X msg f w] by simp
  show ?case
  proof (cases r)
    case (Inl e)
    with step w1 Cons.IH show ?thesis by simp
  next
    case (Inr u)
    with step w1 Cons.IH show ?thesis by simp
  qed
qed

lemma commands_report_files: "commands (report_files X msg fs w) = commands w"
proof (induction fs arbitrary: w)
  case Nil
  show ?case by simp
next
  case (Cons f fs)
  obtain r w1 where step: "report_csv X msg f w = (r, w1)"
    by (cases "report_csv X msg f w")
  then have "commands w1 = commands w"
    using commands_report_csv [of X msg f w] by simp
  with step Cons.IH show ?case
    by (cases r) simp_all
qed

lemma report_csv_alone:
  "sent (snd (report_csv X msg f [])) =
     (case read_csv X f of
        Inl e \<Rightarrow> []
      | Inr df \<Rightarrow>
          if df_empty df then []
          else (case to_markdown X df of
                  Inl e \<Rightarrow> []
                | Inr md \<Rightarrow> [thread_request msg md]))"
  by (simp add: report_csv_def add_msg_eq Let_def split: sum.splits)

text \<open>
  C8, as the code has it. For every directory and every behaviour of the reader, the
  renderer and the server:
  (1) the requests \<^verbatim>\<open>add_validation_reports\<close> sends are, file by file in the order of the
  directory, the requests each file sends when it is processed alone, so what one file
  does, an error included, changes nothing for the files after it; nothing is sent when
  the directory is absent, and no command is run;
  (2) a file whose table is empty sends nothing;
  (3) a file whose table is not empty and renders to \<open>md\<close> sends exactly one request, the
  comment \<open>md\<close>;
  (4) a file whose reading raises, or whose table is not empty and whose rendering raises,
  sends nothing.
  The claim says (3) of every file with a table that is not empty; it needs the rendering
  to succeed.
\<close>

theorem validation_reports_per_file:
  "sent (add_validation_reports X msg templates_dir w)
     = sent w @
       (if path_exists X templates_dir
        then concat (map (\<lambda>f. sent (snd (report_csv X msg f [])))
                       (glob_csv X templates_dir))
        else [])
   \<and> commands (add_validation_reports X msg templates_dir w) = commands w
   \<and> (read_csv X f = Inr df \<and> df_empty df \<longrightarrow> sent (snd (report_csv X msg f [])) = [])
   \<and> (read_csv X f = Inr df \<and> \<not> df_empty df \<and> to_markdown X df = Inr md \<longrightarrow>
        sent (snd (report_csv X msg f [])) = [thread_request msg md])
   \<and> (read_csv X f = Inl e
        \<or> (read_csv X f = Inr df \<and> \<not> df_empty df \<and> to_markdown X df = Inl e) \<longrightarrow>
        sent (snd (report_csv X msg f [])) = [])"
  by (auto simp: add_validation_reports_def sent_report_files commands_report_files
        report_csv_alone)

text \<open>
  At the directory of the tests: two reports, one file that cannot be read, one empty
  table and one file that is not a report give two comments.
\<close>

theorem validation_reports_per_file_witness:
  "glob_csv reports_outside ''synth/templates''
     = [''synth/templates/report1.csv'', ''synth/templates/error.csv'',
        ''synth/templates/empty.csv'', ''synth/templates/report2.csv'']
   \<and> sent (add_validation_reports reports_outside (message_init reports_outside)
             ''synth/templates'' [])
     = [thread_request (message_init reports_outside) ''| table |'',
        thread_request (message_init reports_outside) ''| table |'']"
  using validation_reports_per_file
    [of reports_outside "message_init reports_outside" "''synth/templates''" "[]"
        "''synth/templates/report1.csv''" sample_dataframe "''| table |''"]
  by (simp add: reports_outside_def glob_csv_def path_exists_def report_csv_alone
        df_empty_def sample_dataframe_def test_outside_def)

text \<open>
  The claim fails at a file whose table is not empty and whose rendering raises: the
  exception is caught and logged, and the file gives no comment.
\<close>

theorem render_error_no_comment_counterexample:
  "glob_csv render_fails_outside ''synth/templates'' = [''synth/templates/report1.csv'']
   \<and> read_csv render_fails_outside ''synth/templates/report1.csv'' = Inr sample_dataframe
   \<and> \<not> df_empty sample_dataframe
   \<and> sent (add_validation_reports render_fails_outside (message_init render_fails_outside)
             ''synth/templates'' []) = []
   \<and> logged (add_validation_reports render_fails_outside
               (message_init render_fails_outside) ''synth/templates'' [])
     = [(INFO, ''Adding CDK Validation report from report1.csv''),
        (ERROR, ''Error processing CSV file synth/templates/report1.csv: Missing optional dependency tabulate'')]"
  by (simp add: render_fails_outside_def glob_csv_def path_exists_def
        add_validation_reports_def report_csv_def df_empty_def sample_dataframe_def
        test_outside_def path_name_def)

section \<open>The provisioning workflow\<close>

lemma same_config_refl [simp]: "same_config s s"
  by (simp add: same_config_def)

lemma same_config_repo_id [simp]:
  "same_config s (t\<lparr>new_repository_id := v\<rparr>) = same_config s t"
  by (simp add: same_config_def)

lemma same_config_cicd_id [simp]:
  "same_config s (t\<lparr>cicd_pull_request_id := v\<rparr>) = same_config s t"
  by (simp add: same_config_def)

lemma same_config_iff:
  "same_config s t =
     (new_repo_name t = new_repo_name s \<and> azure_api_version t = azure_api_version s
      \<and> parent_project_id t = parent_project_id s
      \<and> source_project_name t = source_project_name s
      \<and> organization t = organization s \<and> pipeline_stages t = pipeline_stages s
      \<and> headers t = headers s)"
  by (cases s; cases t) (auto simp: same_config_def)

lemma same_config_fields:
  assumes "same_config s t"
  shows "new_repo_name t = new_repo_name s" "azure_api_version t = azure_api_version s"
    "parent_project_id t = parent_project_id s" "source_project_name t = source_project_name s"
    "organization t = organization s" "pipeline_stages t = pipeline_stages s"
    "headers t = headers s"
  using assms by (simp_all add: same_config_iff)

lemma same_config_trans: "same_config s t \<Longrightarrow> same_config t u \<Longrightarrow> same_config s u"
  by (simp add: same_config_iff)

lemma same_config_urls:
  assumes "same_config s t"
  shows "pipelines_url t = pipelines_url s" "pipelines_search_url t = pipelines_search_url s"
    "policy_url t = policy_url s"
  using same_config_fields [OF assms]
  by (simp_all add: pipelines_url_def pipelines_search_url_def policy_url_def)

lemma same_config_calls:
  assumes "same_config s t"
  shows "pipeline_call t e = pipeline_call s e" "policy_call t e = policy_call s e"
  using same_config_urls [OF assms] by (cases e; simp)+

text \<open>Stage 1 calls the repository endpoints only, and assigns the identifiers only.\<close>

lemma create_repo_calls:
  assumes "create_azure_devops_repo X self w = (res, self', w')"
  shows "same_config self self'
         \<and> (\<exists>S. externals w' = externals w @ S \<and> list_all (repo_call self) S)"
  using assms
  by (auto simp: create_azure_devops_repo_eq get_existing_repo_id_eq Let_def
        repo_create_request_def repo_lookup_request_def
        split: if_splits sum.splits)

lemma find_pipeline_calls:
  assumes "find_pipeline items self w = (res, self', w')"
  shows "same_config self self' \<and> externals w' = externals w"
  using assms
proof (induction items)
  case Nil
  then show ?case by simp
next
  case (Cons pipeline rest)
  then show ?case
    by (auto split: sum.splits if_splits)
qed

lemma search_pipelines_calls:
  assumes "search_pipelines r self w = (res, self', w')"
  shows "same_config self self' \<and> externals w' = externals w"
  using assms find_pipeline_calls
  by (auto simp: search_pipelines_def split: sum.splits)

lemma handle_pull_request_pipeline_calls:
  assumes "handle_pull_request_pipeline X r self w = (res, self', w')"
  shows "same_config self self'
         \<and> (\<exists>S. externals w' = externals w @ S \<and> list_all (pipeline_call self) S)"
proof (cases "response_id r")
  case (Inr v)
  with assms show ?thesis
    by (auto simp: handle_pull_request_pipeline_def)
next
  case (Inl e)
  show ?thesis
  proof (cases "catches [KeyError, ValueError] e")
    case False
    with Inl assms show ?thesis
      by (auto simp: handle_pull_request_pipeline_def)
  next
    case True
    let ?w2 = "w @ [Log ERROR (''Pipeline '' @ new_repo_name self
                       @ ''-pull-request already exists. Searching for its ID...''),
                    Http (pipelines_search_request self)]"
    let ?sr = "server X (sent w) (pipelines_search_request self)"
    have ext: "externals ?w2 = externals w @ [Http (pipelines_search_request self)]"
      by simp
    have call: "pipeline_call self (Http (pipelines_search_request self))"
      by (simp add: pipelines_search_request_def)
    show ?thesis
    proof (cases "status_code ?sr = 200")
      case False
      with Inl True assms ext call show ?thesis
        by (auto simp: handle_pull_request_pipeline_def requests_get_def Let_def
              pipelines_search_request_def pipelines_search_url_def)
    next
      case ok: True
      obtain r2 self2 w3 where sp: "search_pipelines ?sr self ?w2 = (r2, self2, w3)"
        by (cases "search_pipelines ?sr self ?w2") auto
      from search_pipelines_calls [OF sp]
      have inner: "same_config self self2" "externals w3 = externals ?w2"
        by simp_all
      from Inl True ok sp assms
      have "self' = self2 \<and> externals w' = externals w3"
        by (auto simp: handle_pull_request_pipeline_def requests_get_def Let_def
              pipelines_search_request_def pipelines_search_url_def
              split: sum.splits if_splits)
      with inner ext call show ?thesis
        by auto
    qed
  qed
qed

lemma pipelines_loop_calls:
  assumes "pipelines_loop X (pipelines_url self0) stages self w = (res, self', w')"
    and "same_config self0 self"
  shows "same_config self0 self'
         \<and> (\<exists>S. externals w' = externals w @ S \<and> list_all (pipeline_call self0) S)"
  using assms
proof (induction stages arbitrary: self w)
  case Nil
  then show ?case by simp
next
  case (Cons stage stages)
  let ?rq = "\<lparr>http_method = POST, url = pipelines_url self0, req_headers = headers self,
              payload = JsonPayload (pipeline_body self stage)\<rparr>"
  let ?r = "server X (sent w) ?rq"
  let ?w1 = "w @ [Http ?rq]"
  have call: "pipeline_call self0 (Http ?rq)"
    by simp
  obtain r1 self1 w2 where h:
    "(if stage = ''pull-request'' then handle_pull_request_pipeline X ?r self ?w1
      else (Inr (), self, ?w1)) = (r1, self1, w2)"
    by (cases "if stage = ''pull-request'' then handle_pull_request_pipeline X ?r self ?w1
               else (Inr (), self, ?w1)") auto
  have h1: "same_config self self1
            \<and> (\<exists>S. externals w2 = externals ?w1 @ S \<and> list_all (pipeline_call self) S)"
  proof (cases "stage = ''pull-request''")
    case True
    with h show ?thesis
      using handle_pull_request_pipeline_calls [of X ?r self ?w1 r1 self1 w2] by simp
  next
    case False
    with h show ?thesis by auto
  qed
  have calls_eq: "pipeline_call self = pipeline_call self0"
    using same_config_calls(1) [OF Cons.prems(2)] by (rule ext)
  from h1 calls_eq obtain S1 where S1:
    "externals w2 = externals w @ Http ?rq # S1" "list_all (pipeline_call self0) S1"
    by auto
  have sc1: "same_config self0 self1"
    using h1 Cons.prems(2) by (blast intro: same_config_trans)
  show ?case
  proof (cases r1)
    case (Inl e)
    with h Cons.prems(1) have "self' = self1 \<and> w' = w2"
      by (simp add: requests_post_def Let_def)
    with S1 sc1 call show ?thesis by auto
  next
    case (Inr u)
    let ?w4 = "w2 @ [Log INFO (''Pipeline creation status: '' @ str_nat (status_code ?r)
                       @ '' - '' @ reason ?r),
                     if status_code ?r = 200 then Log INFO ''Pipeline creation succeeded''
                     else Log ERROR ''Pipeline creation failed or pipeline already exists'']"
    from Inr h Cons.prems(1)
    have rest: "pipelines_loop X (pipelines_url self0) stages self1 ?w4 = (res, self', w')"
      by (simp add: requests_post_def Let_def)
    from Cons.IH [OF rest sc1] obtain S2 where S2:
      "same_config self0 self'" "externals w' = externals ?w4 @ S2"
      "list_all (pipeline_call self0) S2"
      by auto
    have "externals ?w4 = externals w2"
      by simp
    with S1 S2 call show ?thesis by auto
  qed
qed

text \<open>Stage 2 calls the pipeline endpoints only.\<close>

lemma create_pipelines_calls:
  assumes "create_pipelines X self w = (res, self', w')"
  shows "same_config self self'
         \<and> (\<exists>S. externals w' = externals w @ S \<and> list_all (pipeline_call self) S)"
proof (cases "truthy (new_repository_id self)")
  case False
  with assms show ?thesis
    by (auto simp: create_pipelines_def)
next
  case True
  let ?w1 = "w @ [Log INFO (''Creating new Azure pipelines on repository: ''
                    @ new_repo_name self)]"
  from True assms
  have "pipelines_loop X (pipelines_url self) (pipeline_stages self) self ?w1
          = (res, self', w')"
    by (simp add: create_pipelines_def pipelines_url_def Let_def)
  from pipelines_loop_calls [OF this same_config_refl] show ?thesis
    by simp
qed

text \<open>Stage 3 runs \<^verbatim>\<open>git\<close> only.\<close>

lemma git_migrate_calls:
  assumes "git_migrate X self w = (res, w')"
  shows "\<exists>S. externals w' = externals w @ S \<and> list_all git_run S"
  using assms
  by (auto simp: git_migrate_def subprocess_run_def migrate_failed_def Let_def
        split: option.splits if_splits)

text \<open>Stage 4 calls the policy endpoint only.\<close>

lemma create_pull_request_policy_calls:
  assumes "create_pull_request_policy X self w = (ok, w')"
  shows "\<exists>S. externals w' = externals w @ S \<and> list_all (policy_call self) S"
  using assms
  by (auto simp: create_pull_request_policy_def requests_post_def policy_url_def Let_def
        split: if_splits)

text \<open>
  The endpoints of the four stages are different for a session made by the constructor,
  so a call belongs to one stage only.
\<close>

lemma stage_calls_disjoint:
  assumes "create_azure_repo_init X azure_access_token repository_name = Inr repo"
  shows "\<not> (repo_call repo e \<and> pipeline_call repo e)"
    and "\<not> (repo_call repo e \<and> policy_call repo e)"
    and "\<not> (pipeline_call repo e \<and> policy_call repo e)"
    and "\<not> (git_run e \<and> (repo_call repo e \<or> pipeline_call repo e \<or> policy_call repo e))"
  using assms
  by (cases e;
      auto simp: create_azure_repo_init_def repo_create_url_def repo_lookup_url_def
        pipelines_url_def pipelines_search_url_def policy_url_def split: if_splits)+

text \<open>The calls of the four stages, run one after the other.\<close>

lemma stages_calls:
  assumes "create_azure_devops_repo X repo w = (r1, repo1, w1)"
    and "create_pipelines X repo1 w1 = (r2, repo2, w2)"
    and "git_migrate X repo2 w2 = (r3, w3)"
    and "create_pull_request_policy X repo2 w3 = (ok, w4)"
  shows "\<exists>S1 S2 S3 S4.
           externals w1 = externals w @ S1 \<and> externals w2 = externals w1 @ S2
           \<and> externals w3 = externals w2 @ S3 \<and> externals w4 = externals w3 @ S4
           \<and> list_all (repo_call repo) S1 \<and> list_all (pipeline_call repo) S2
           \<and> list_all git_run S3 \<and> list_all (policy_call repo) S4"
proof -
  from create_repo_calls [OF assms(1)] obtain S1 where S1:
    "same_config repo repo1" "externals w1 = externals w @ S1" "list_all (repo_call repo) S1"
    by auto
  from create_pipelines_calls [OF assms(2)] obtain S2 where S2:
    "same_config repo1 repo2" "externals w2 = externals w1 @ S2"
    "list_all (pipeline_call repo1) S2"
    by auto
  have S2': "list_all (pipeline_call repo) S2"
    using S2(3) same_config_calls(1) [OF S1(1)] by (simp add: list_all_iff)
  have sc2: "same_config repo repo2"
    using S1(1) S2(1) by (rule same_config_trans)
  from git_migrate_calls [OF assms(3)] obtain S3 where S3:
    "externals w3 = externals w2 @ S3" "list_all git_run S3"
    by auto
  from create_pull_request_policy_calls [OF assms(4)] obtain S4 where S4:
    "externals w4 = externals w3 @ S4" "list_all (policy_call repo2) S4"
    by auto
  have S4': "list_all (policy_call repo) S4"
    using S4(2) same_config_calls(2) [OF sc2] by (simp add: list_all_iff)
  from S1 S2 S2' S3 S4 S4' show ?thesis
    by - (rule exI [of _ S1], rule exI [of _ S2], rule exI [of _ S3], rule exI [of _ S4], simp)
qed

text \<open>
  C2, as the code has it. Let the four stages be run one after the other, each on the
  session and the trace the one before it left: \<^verbatim>\<open>create_azure_devops_repo\<close> gives \<open>r1\<close>
  and the trace \<open>w1\<close>, \<^verbatim>\<open>create_pipelines\<close> gives \<open>r2\<close> and \<open>w2\<close>, \<^verbatim>\<open>git_migrate\<close> gives \<open>r3\<close>
  and \<open>w3\<close>, \<^verbatim>\<open>create_pull_request_policy\<close> gives \<open>w4\<close>.
  (1) When stage 1 returns \<^verbatim>\<open>True\<close> and stages 2 and 3 return, \<^verbatim>\<open>main\<close> executes all four
  stages in that order: its trace is \<open>w4\<close>. This holds whatever stage 3 returned, \<^verbatim>\<open>True\<close>
  or \<^verbatim>\<open>False\<close>: stage 4 is not gated on the migration, and stage 2 has no result to gate
  on.
  (2) When stage 1 returns \<^verbatim>\<open>False\<close>, \<^verbatim>\<open>main\<close> logs the abort and stops: its external calls
  are those of stage 1, and no later stage performs any.
  (3) A stage that raises ends the run with its exception and its trace.
  (4) The external calls the stages add are, in this order, calls to the repository
  endpoints, calls to the pipeline endpoints, \<^verbatim>\<open>git\<close> commands, calls to the policy
  endpoint.
\<close>

theorem provisioning_stage_order:
  assumes "create_azure_repo_init X azure_access_token repository_name = Inr repo"
    and "create_azure_devops_repo X repo w = (r1, repo1, w1)"
    and "create_pipelines X repo1 w1 = (r2, repo2, w2)"
    and "git_migrate X repo2 w2 = (r3, w3)"
    and "create_pull_request_policy X repo2 w3 = (ok, w4)"
  shows
    "(r1 = Inr True \<and> r2 = Inr () \<and> r3 = Inr migrated \<longrightarrow>
        main X azure_access_token repository_name w = (Inr (), w4))
     \<and> (r1 = Inr False \<longrightarrow>
        main X azure_access_token repository_name w
          = (Inr (), w1 @ [Log ERROR ''Failed to create or find repository. Aborting.''])
        \<and> externals (snd (main X azure_access_token repository_name w)) = externals w1)
     \<and> (r1 = Inl e \<longrightarrow> main X azure_access_token repository_name w = (Inl e, w1))
     \<and> (r1 = Inr True \<and> r2 = Inl e \<longrightarrow>
        main X azure_access_token repository_name w = (Inl e, w2))
     \<and> (r1 = Inr True \<and> r2 = Inr () \<and> r3 = Inl e \<longrightarrow>
        main X azure_access_token repository_name w = (Inl e, w3))
     \<and> (\<exists>S1 S2 S3 S4.
           externals w1 = externals w @ S1 \<and> externals w2 = externals w1 @ S2
           \<and> externals w3 = externals w2 @ S3 \<and> externals w4 = externals w3 @ S4
           \<and> list_all (repo_call repo) S1 \<and> list_all (pipeline_call repo) S2
           \<and> list_all git_run S3 \<and> list_all (policy_call repo) S4)"
proof (intro conjI impI)
  show "\<exists>S1 S2 S3 S4.
           externals w1 = externals w @ S1 \<and> externals w2 = externals w1 @ S2
           \<and> externals w3 = externals w2 @ S3 \<and> externals w4 = externals w3 @ S4
           \<and> list_all (repo_call repo) S1 \<and> list_all (pipeline_call repo) S2
           \<and> list_all git_run S3 \<and> list_all (policy_call repo) S4"
    using stages_calls [OF assms(2-5)] .
next
  assume "r1 = Inr True \<and> r2 = Inr () \<and> r3 = Inr migrated"
  with assms show "main X azure_access_token repository_name w = (Inr (), w4)"
    by (simp add: main_def)
next
  assume a: "r1 = Inr False"
  with assms show
    "main X azure_access_token repository_name w
       = (Inr (), w1 @ [Log ERROR ''Failed to create or find repository. Aborting.''])"
    by (simp add: main_def)
  then show "externals (snd (main X azure_access_token repository_name w)) = externals w1"
    by simp
next
  assume "r1 = Inl e"
  with assms show "main X azure_access_token repository_name w = (Inl e, w1)"
    by (simp add: main_def)
next
  assume "r1 = Inr True \<and> r2 = Inl e"
  with assms show "main X azure_access_token repository_name w = (Inl e, w2)"
    by (simp add: main_def)
next
  assume "r1 = Inr True \<and> r2 = Inr () \<and> r3 = Inl e"
  with assms show "main X azure_access_token repository_name w = (Inl e, w3)"
    by (simp add: main_def)
qed

lemma git_fails_outside_simps [simp]:
  "server git_fails_outside =
     answers
       [(''https://dev.azure.com/<ORGANIZATION>/_apis/git/repositories?api-version=7.0'',
         reply 201 (Some (JObj [(''id'', JStr ''123'')]))),
        (''https://dev.azure.com/<ORGANIZATION>/<PROJECT_ID>/_apis/pipelines?api-version=7.0'',
         reply 200 (Some (JObj [(''id'', JStr ''1'')]))),
        (''https://dev.azure.com/<ORGANIZATION>/<PROJECT_NAME>/_apis/policy/configurations?api-version=7.0'',
         reply 200 (Some (JObj [])))]"
  "run_process git_fails_outside =
     (\<lambda>history cmd. Some (Exn CalledProcessError ''returned non-zero exit status 128''))"
  "b64encode git_fails_outside = (\<lambda>s. s)"
  by (simp_all add: git_fails_outside_def test_outside_def)

lemma all_succeed_outside_simps [simp]:
  "server all_succeed_outside = server git_fails_outside"
  "run_process all_succeed_outside = (\<lambda>history cmd. None)"
  "b64encode all_succeed_outside = (\<lambda>s. s)"
  by (simp_all add: all_succeed_outside_def)

lemma init_demo_repo:
  "b64encode X = (\<lambda>s. s) \<Longrightarrow> create_azure_repo_init X ''token'' ''demo'' = Inr demo_repo"
  by (simp add: create_azure_repo_init_def demo_repo_def)

lemmas run_defs =
  create_azure_devops_repo_eq create_pipelines_def handle_pull_request_pipeline_def
  git_migrate_def subprocess_run_def migrate_failed_def create_pull_request_policy_def
  requests_post_def answers_def response_id_def response_json_def catches_def Let_def
  repo_create_request_def repo_create_url_def pipeline_request_def pipeline_body_def
  pipelines_url_def policy_request_def policy_url_def

text \<open>
  At a run in which every stage succeeds, the four stages run in order: the creation POST,
  the three pipeline POSTs, the two \<^verbatim>\<open>git\<close> commands, the policy POST. At a run whose
  repository creation is answered with 500, the creation POST is the only external call.
\<close>

theorem provisioning_stage_order_witness:
  "main all_succeed_outside ''token'' ''demo'' []
     = (Inr (),
        snd (create_pull_request_policy all_succeed_outside
          (fst (snd (create_pipelines all_succeed_outside
             (fst (snd (create_azure_devops_repo all_succeed_outside demo_repo [])))
             (snd (snd (create_azure_devops_repo all_succeed_outside demo_repo []))))))
          (snd (git_migrate all_succeed_outside
             (fst (snd (create_pipelines all_succeed_outside
                (fst (snd (create_azure_devops_repo all_succeed_outside demo_repo [])))
                (snd (snd (create_azure_devops_repo all_succeed_outside demo_repo []))))))
             (snd (snd (create_pipelines all_succeed_outside
                (fst (snd (create_azure_devops_repo all_succeed_outside demo_repo [])))
                (snd (snd (create_azure_devops_repo all_succeed_outside demo_repo []))))))))))
   \<and> externals (snd (main all_succeed_outside ''token'' ''demo'' []))
     = [Http (repo_create_request demo_repo),
        Http (pipeline_request (demo_repo\<lparr>new_repository_id := JStr ''123''\<rparr>) ''development''),
        Http (pipeline_request (demo_repo\<lparr>new_repository_id := JStr ''123''\<rparr>) ''pull-request''),
        Http (pipeline_request (demo_repo\<lparr>new_repository_id := JStr ''123''\<rparr>) ''release''),
        Run [''git'', ''remote'', ''set-url'', ''origin'',
             ''git@ssh.dev.azure.com:v3/<ORGANIZATION>/<PROJECT_NAME>/demo''],
        Run [''git'', ''push'', ''-u'', ''origin'', ''--all''],
        Http (policy_request (demo_repo\<lparr>new_repository_id := JStr ''123'',
                                        cicd_pull_request_id := JStr ''1''\<rparr>))]
   \<and> externals (snd (main (serving (by_turn [reply 500 None])) ''token'' ''demo'' []))
     = [Http (repo_create_request demo_repo)]"
proof -
  let ?X = all_succeed_outside
  let ?s1 = "create_azure_devops_repo ?X demo_repo []"
  let ?s2 = "create_pipelines ?X (fst (snd ?s1)) (snd (snd ?s1))"
  let ?s3 = "git_migrate ?X (fst (snd ?s2)) (snd (snd ?s2))"
  let ?s4 = "create_pull_request_policy ?X (fst (snd ?s2)) (snd ?s3)"
  have init: "create_azure_repo_init ?X ''token'' ''demo'' = Inr demo_repo"
    by (rule init_demo_repo) simp
  have e1: "?s1 = (fst ?s1, fst (snd ?s1), snd (snd ?s1))" by simp
  have e2: "?s2 = (fst ?s2, fst (snd ?s2), snd (snd ?s2))" by simp
  have e3: "?s3 = (fst ?s3, snd ?s3)" by simp
  have e4: "?s4 = (fst ?s4, snd ?s4)" by simp
  have r1: "fst ?s1 = Inr True"
    by (simp add: run_defs)
  have r2: "fst ?s2 = Inr ()"
    by (simp add: run_defs)
  have r3: "fst ?s3 = Inr True"
    by (simp add: run_defs)
  from provisioning_stage_order [OF init e1 e2 e3 e4, of True] r1 r2 r3
  have run: "main ?X ''token'' ''demo'' [] = (Inr (), snd ?s4)"
    by blast
  have calls: "externals (snd ?s4)
     = [Http (repo_create_request demo_repo),
        Http (pipeline_request (demo_repo\<lparr>new_repository_id := JStr ''123''\<rparr>) ''development''),
        Http (pipeline_request (demo_repo\<lparr>new_repository_id := JStr ''123''\<rparr>) ''pull-request''),
        Http (pipeline_request (demo_repo\<lparr>new_repository_id := JStr ''123''\<rparr>) ''release''),
        Run [''git'', ''remote'', ''set-url'', ''origin'',
             ''git@ssh.dev.azure.com:v3/<ORGANIZATION>/<PROJECT_NAME>/demo''],
        Run [''git'', ''push'', ''-u'', ''origin'', ''--all''],
        Http (policy_request (demo_repo\<lparr>new_repository_id := JStr ''123'',
                                        cicd_pull_request_id := JStr ''1''\<rparr>))]"
    by (simp add: run_defs)
  let ?Y = "serving (by_turn [reply 500 None])"
  let ?t1 = "create_azure_devops_repo ?Y demo_repo []"
  let ?t2 = "create_pipelines ?Y (fst (snd ?t1)) (snd (snd ?t1))"
  let ?t3 = "git_migrate ?Y (fst (snd ?t2)) (snd (snd ?t2))"
  let ?t4 = "create_pull_request_policy ?Y (fst (snd ?t2)) (snd ?t3)"
  have init': "create_azure_repo_init ?Y ''token'' ''demo'' = Inr demo_repo"
    by (rule init_demo_repo) simp
  have f1: "?t1 = (fst ?t1, fst (snd ?t1), snd (snd ?t1))" by simp
  have f2: "?t2 = (fst ?t2, fst (snd ?t2), snd (snd ?t2))" by simp
  have f3: "?t3 = (fst ?t3, snd ?t3)" by simp
  have f4: "?t4 = (fst ?t4, snd ?t4)" by simp
  have q1: "fst ?t1 = Inr False"
    by (simp add: create_azure_devops_repo_eq)
  from provisioning_stage_order [OF init' f1 f2 f3 f4] q1
  have "externals (snd (main ?Y ''token'' ''demo'' [])) = externals (snd (snd ?t1))"
    by blast
  moreover have "externals (snd (snd ?t1)) = [Http (repo_create_request demo_repo)]"
    by (simp add: create_azure_devops_repo_eq)
  ultimately show ?thesis
    using run calls by simp
qed

text \<open>
  The claim fails at a run in which stage 3 fails: the first \<^verbatim>\<open>git\<close> command exits with a
  non-zero status, \<^verbatim>\<open>git_migrate\<close> logs the failure, and the policy POST of stage 4 is
  sent all the same.
\<close>

theorem policy_after_failed_migration_counterexample:
  "run_process git_fails_outside []
       [''git'', ''remote'', ''set-url'', ''origin'',
        ''git@ssh.dev.azure.com:v3/<ORGANIZATION>/<PROJECT_NAME>/demo'']
     = Some (Exn CalledProcessError ''returned non-zero exit status 128'')
   \<and> externals (snd (main git_fails_outside ''token'' ''demo'' []))
     = [Http (repo_create_request demo_repo),
        Http (pipeline_request (demo_repo\<lparr>new_repository_id := JStr ''123''\<rparr>) ''development''),
        Http (pipeline_request (demo_repo\<lparr>new_repository_id := JStr ''123''\<rparr>) ''pull-request''),
        Http (pipeline_request (demo_repo\<lparr>new_repository_id := JStr ''123''\<rparr>) ''release''),
        Run [''git'', ''remote'', ''set-url'', ''origin'',
             ''git@ssh.dev.azure.com:v3/<ORGANIZATION>/<PROJECT_NAME>/demo''],
        Http (policy_request (demo_repo\<lparr>new_repository_id := JStr ''123'',
                                        cicd_pull_request_id := JStr ''1''\<rparr>))]
   \<and> logged (snd (main git_fails_outside ''token'' ''demo'' []))
     = [(INFO, ''Creating new Azure repository: demo''),
        (INFO, ''Repository created successfully''),
        (INFO, ''Creating new Azure pipelines on repository: demo''),
        (INFO, ''Pipeline creation status: 200 - -''),
        (INFO, ''Pipeline creation succeeded''),
        (INFO, ''Pipeline creation status: 200 - -''),
        (INFO, ''Pipeline creation succeeded''),
        (INFO, ''Pipeline creation status: 200 - -''),
        (INFO, ''Pipeline creation succeeded''),
        (INFO, ''Starting git migration''),
        (ERROR, ''Git migration failed: returned non-zero exit status 128''),
        (INFO, ''Setting build validation policy for pull requests''),
        (INFO, ''Build validation policy created successfully'')]"
  by (simp add: main_def init_demo_repo run_defs)

end
